theory Spec2Isabelle
  imports Main "HOL-Library.AList"
begin

text \<open>
  A shallow embedding of the services of the reservoir dashboard: authService (profile
  resolution, enrollment, face login, the vault in localStorage), the Biometric Gate of
  geminiService, the verification loop of the Auth component, and dataService. Remote
  services, the clock, the random source and \<^verbatim>\<open>JSON.parse\<close> are parameters, gathered
  in a record \<open>env\<close>; every function returns the log of the remote calls it makes
  next to its result, and an exception is a result \<open>Inl\<close>.
\<close>

section \<open>Values and errors\<close>

text \<open>
  Values produced by \<^verbatim>\<open>JSON.parse\<close>, plus \<^verbatim>\<open>undefined\<close> (the value of a
  missing property). A number is carried as the text \<^verbatim>\<open>Number.prototype.toString\<close>
  gives it, which \<open>JNum\<close> holds; no property below depends on a numeric value.
\<close>

datatype jsval =
    JUndef
  | JNull
  | JBool bool
  | JNum string
  | JStr string
  | JArr "jsval list"
  | JObj "(string \<times> jsval) list"

text \<open>
  Every \<^verbatim>\<open>new Error(...)\<close> of the services, one constructor per message; a message
  that interpolates a value carries that value.
  \<^item> \<open>DatabaseConfigError\<close>: "DATABASE CONFIG ERROR: The Supabase Trigger is crashing. ..."
  \<^item> \<open>RegistrationError m\<close>: \<^verbatim>\<open>authError.message || "Registration failed"\<close>
  \<^item> \<open>UserCreationFailed\<close>: "User creation failed"
  \<^item> \<open>SignInError m\<close>: \<^verbatim>\<open>new Error(error.message)\<close> of signIn
  \<^item> \<open>NoUserFound\<close>: "No user found"
  \<^item> \<open>ProfileUnavailable\<close>: "Profile could not be loaded. Please try logging out and
    logging back in."
  \<^item> \<open>FaceEnrollmentFailed r\<close>: "Face Enrollment Failed: \<open>r\<close>"
  \<^item> \<open>CloudRegistrationFailed\<close>: "Cloud Registration Failed"
  \<^item> \<open>EnrollmentLoginFailed\<close>: "Enrollment Login Failed"
  \<^item> \<open>DeviceNotEnrolled\<close>: "Device not enrolled. Please perform One-Time Setup."
  \<^item> \<open>AccessDenied r\<close>: "Access Denied: \<open>r\<close>"
  \<^item> \<open>UserNotFound\<close>: "User not found."
  \<^item> \<open>TokenCorrupted\<close>: "Biometric Token Corrupted. Please Re-Enroll."
  \<^item> \<open>TypeError\<close>, \<open>SyntaxError\<close>, \<open>InvalidCharacterError\<close>, \<open>QuotaExceededError\<close>:
    raised by the platform (property read on null or undefined, spreading a value that is
    not iterable, \<^verbatim>\<open>JSON.parse\<close>, \<^verbatim>\<open>atob\<close>, \<^verbatim>\<open>localStorage.setItem\<close>)
  \<^item> \<open>RemoteError code message\<close>: an error object of the database client.
\<close>

datatype error =
    DatabaseConfigError
  | RegistrationError string
  | UserCreationFailed
  | SignInError string
  | NoUserFound
  | ProfileUnavailable
  | FaceEnrollmentFailed jsval
  | CloudRegistrationFailed
  | EnrollmentLoginFailed
  | DeviceNotEnrolled
  | AccessDenied jsval
  | UserNotFound
  | TokenCorrupted
  | TypeError
  | SyntaxError
  | InvalidCharacterError
  | QuotaExceededError
  | RemoteError "string option" string

section \<open>types.ts\<close>

text \<open>
  \<^verbatim>\<open>enum UserRole\<close> is a string enum, and a role read from the database or from the
  auth metadata is cast to it unchecked, so a role is a string at run time.
\<close>

definition SUPER_ADMIN :: string where "SUPER_ADMIN = ''SUPER_ADMIN''"
definition ADMIN :: string where "ADMIN = ''ADMIN''"
definition DATA_ENTRY_WORKER :: string where "DATA_ENTRY_WORKER = ''DATA_ENTRY_WORKER''"

record user =
  user_id :: string
  user_name :: string
  user_role :: string
  user_avatarUrl :: string

section \<open>The remote services, as the client library presents them\<close>

text \<open>
  supabase-js resolves every auth and PostgREST call to a pair of data and error; the
  services read the two fields. A row of the \<^verbatim>\<open>profiles\<close> table:
\<close>

record profile_row =
  row_id :: string
  row_name :: string
  row_role :: string
  row_avatar_url :: string

record select_result =
  sel_data :: "profile_row option"
  sel_error :: "error option"

text \<open>The \<^verbatim>\<open>user_metadata\<close> of an auth user; each field may be missing.\<close>

record metadata =
  meta_name :: "string option"
  meta_role :: "string option"
  meta_avatar_url :: "string option"

record auth_user =
  au_id :: string
  au_user_metadata :: "metadata option"

text \<open>
  What a flow does to the outside world, in order: the log is how "polled at most five
  times" or "no sign-in was attempted" is stated.
\<close>

datatype event =
    EvProfileSelect string
  | EvSleep nat
  | EvGenerateContent string
  | EvSignUp string string string string
  | EvSignIn jsval jsval
  | EvDbSelect
  | EvDbInsert jsval
  | EvDbDelete string
  | EvConsole string

section \<open>authService.getUserProfile\<close>

definition maxAttempts :: nat where "maxAttempts = 5"
definition delayMs :: nat where "delayMs = 500"

text \<open>\<^verbatim>\<open>x || d\<close> on an optional string: a missing or empty \<open>x\<close> is falsy.\<close>

fun or_default :: "string option \<Rightarrow> string \<Rightarrow> string" where
  "or_default None d = d"
| "or_default (Some s) d = (if s = [] then d else s)"

definition user_of_row :: "profile_row \<Rightarrow> user" where
  "user_of_row profile =
     \<lparr>user_id = row_id profile, user_name = row_name profile,
      user_role = row_role profile, user_avatarUrl = row_avatar_url profile\<rparr>"

text \<open>\<^verbatim>\<open>if (!error && profile)\<close>\<close>

definition row_found :: "select_result \<Rightarrow> bool" where
  "row_found r = (sel_error r = None \<and> sel_data r \<noteq> None)"

text \<open>
  The \<^verbatim>\<open>while (attempts < maxAttempts)\<close> loop. \<open>fetch n\<close> is what the \<open>n\<close>-th
  select of this call resolves to. The result is the user of the first row found, if
  any, and the log of selects and sleeps.
\<close>

function poll_profiles :: "(nat \<Rightarrow> select_result) \<Rightarrow> string \<Rightarrow> nat \<Rightarrow> user option \<times> event list" where
  "poll_profiles fetch userId attempts =
     (if attempts < maxAttempts then
        (let r = fetch attempts in
         if row_found r then (map_option user_of_row (sel_data r), [EvProfileSelect userId])
         else
           (let attempts' = attempts + 1;
                pause = (if attempts' < maxAttempts then [EvSleep delayMs] else []);
                rest = poll_profiles fetch userId attempts'
            in (fst rest, EvProfileSelect userId # pause @ snd rest)))
      else (None, []))"
  by pat_completeness auto
termination
  by (relation "measure (\<lambda>(fetch, userId, attempts). maxAttempts - attempts)") auto

record profile_result =
  appUser :: "user option"
  pr_error :: "error option"

definition user_of_metadata :: "string \<Rightarrow> metadata \<Rightarrow> user" where
  "user_of_metadata userId meta =
     \<lparr>user_id = userId,
      user_name = or_default (meta_name meta) ''Unknown User'',
      user_role = or_default (meta_role meta) DATA_ENTRY_WORKER,
      user_avatarUrl = or_default (meta_avatar_url meta)
        ''https://ui-avatars.com/api/?name=User&background=random''\<rparr>"

text \<open>\<^verbatim>\<open>authUserFallback && authUserFallback.user_metadata\<close>\<close>

definition fallback_metadata :: "auth_user option \<Rightarrow> metadata option" where
  "fallback_metadata authUserFallback =
     (case authUserFallback of None \<Rightarrow> None | Some au \<Rightarrow> au_user_metadata au)"

definition getUserProfile ::
  "(string \<Rightarrow> nat \<Rightarrow> select_result) \<Rightarrow> string \<Rightarrow> auth_user option \<Rightarrow> profile_result \<times> event list" where
  "getUserProfile profiles_single userId authUserFallback =
     (case poll_profiles (profiles_single userId) userId 0 of
        (Some u, evs) \<Rightarrow> (\<lparr>appUser = Some u, pr_error = None\<rparr>, evs)
      | (None, evs) \<Rightarrow>
          (case fallback_metadata authUserFallback of
             Some meta \<Rightarrow> (\<lparr>appUser = Some (user_of_metadata userId meta), pr_error = None\<rparr>, evs)
           | None \<Rightarrow> (\<lparr>appUser = None, pr_error = Some ProfileUnavailable\<rparr>, evs)))"

text \<open>The number of selects in a log, and the pauses in it.\<close>

definition selects :: "event list \<Rightarrow> nat" where
  "selects evs = length (filter (\<lambda>e. case e of EvProfileSelect _ \<Rightarrow> True | _ \<Rightarrow> False) evs)"

fun pauses :: "event list \<Rightarrow> nat list" where
  "pauses [] = []"
| "pauses (EvSleep ms # evs) = ms # pauses evs"
| "pauses (_ # evs) = pauses evs"

section \<open>The platform: JavaScript values, JSON, base64, localStorage\<close>

subsection \<open>Truthiness and property reads\<close>

text \<open>\<^verbatim>\<open>if (v)\<close>, \<^verbatim>\<open>!v\<close>: the falsy values are undefined, null, false, 0, NaN and
  the empty string.\<close>

fun truthy :: "jsval \<Rightarrow> bool" where
  "truthy JUndef = False"
| "truthy JNull = False"
| "truthy (JBool b) = b"
| "truthy (JNum n) = (n \<noteq> ''0'' \<and> n \<noteq> ''NaN'')"
| "truthy (JStr s) = (s \<noteq> [])"
| "truthy (JArr xs) = True"
| "truthy (JObj kvs) = True"

text \<open>
  \<^verbatim>\<open>v.key\<close> for the keys the services read (\<^verbatim>\<open>authorized\<close>, \<^verbatim>\<open>reason\<close>,
  \<^verbatim>\<open>email\<close>, \<^verbatim>\<open>password\<close> and the column names of a database row): a TypeError on
  null and undefined, the field of an object, and undefined on every other value (no
  string, number, boolean or array has a property of one of these names).
\<close>

fun js_get :: "jsval \<Rightarrow> string \<Rightarrow> error + jsval" where
  "js_get JUndef key = Inl TypeError"
| "js_get JNull key = Inl TypeError"
| "js_get (JObj kvs) key = Inr (case map_of kvs key of None \<Rightarrow> JUndef | Some v \<Rightarrow> v)"
| "js_get v key = Inr JUndef"

text \<open>\<^verbatim>\<open>[...v]\<close>: arrays and strings are iterable, the other JSON values are not.\<close>

fun js_spread :: "jsval \<Rightarrow> error + jsval list" where
  "js_spread (JArr xs) = Inr xs"
| "js_spread (JStr s) = Inr (map (\<lambda>c. JStr [c]) s)"
| "js_spread v = Inl TypeError"

subsection \<open>Decimal text of an integer\<close>

definition digit_char :: "int \<Rightarrow> char" where
  "digit_char d = char_of (48 + d)"

function show_digits :: "int \<Rightarrow> string" where
  "show_digits n = (if n < 10 then [digit_char n] else show_digits (n div 10) @ [digit_char (n mod 10)])"
  by pat_completeness auto
termination
  by (relation "measure nat") auto

text \<open>\<^verbatim>\<open>`${n}`\<close> for an integral number \<open>n\<close> (below \<open>10\<^sup>2\<^sup>1\<close> in absolute value).\<close>

definition show_int :: "int \<Rightarrow> string" where
  "show_int n = (if n < 0 then CHR ''-'' # show_digits (- n) else show_digits n)"

subsection \<open>JSON.stringify\<close>

definition hex_char :: "int \<Rightarrow> char" where
  "hex_char d = (if d < 10 then char_of (48 + d) else char_of (87 + d))"

text \<open>QuoteJSONString on one code unit.\<close>

definition json_escape :: "char \<Rightarrow> string" where
  "json_escape c =
     (let n = (of_char c :: int) in
      if n = 34 then [CHR 0x5C, CHR 0x22]
      else if n = 92 then [CHR 0x5C, CHR 0x5C]
      else if n = 8 then [CHR 0x5C, CHR ''b'']
      else if n = 9 then [CHR 0x5C, CHR ''t'']
      else if n = 10 then [CHR 0x5C, CHR ''n'']
      else if n = 12 then [CHR 0x5C, CHR ''f'']
      else if n = 13 then [CHR 0x5C, CHR ''r'']
      else if n < 32 then [CHR 0x5C, CHR ''u'', CHR ''0'', CHR ''0'', hex_char (n div 16), hex_char (n mod 16)]
      else [c])"

definition json_quote :: "string \<Rightarrow> string" where
  "json_quote s = CHR 0x22 # concat (map json_escape s) @ [CHR 0x22]"

fun join_comma :: "string list \<Rightarrow> string" where
  "join_comma [] = []"
| "join_comma [x] = x"
| "join_comma (x # y # ys) = x @ CHR '','' # join_comma (y # ys)"

text \<open>
  \<^verbatim>\<open>JSON.stringify(v)\<close> for an array or an object \<open>v\<close> (the services serialise nothing
  else): an undefined array element and a number that is not finite are written
  \<^verbatim>\<open>null\<close>, and an undefined object field is left out.
\<close>

fun JSON_stringify :: "jsval \<Rightarrow> string" where
  "JSON_stringify JUndef = ''null''"
| "JSON_stringify JNull = ''null''"
| "JSON_stringify (JBool b) = (if b then ''true'' else ''false'')"
| "JSON_stringify (JNum n) =
     (if n = ''NaN'' \<or> n = ''Infinity'' \<or> n = ''-Infinity'' then ''null'' else n)"
| "JSON_stringify (JStr s) = json_quote s"
| "JSON_stringify (JArr xs) = CHR ''['' # join_comma (map JSON_stringify xs) @ [CHR '']'']"
| "JSON_stringify (JObj kvs) =
     CHR ''{'' # join_comma (map (\<lambda>(k, v). json_quote k @ CHR '':'' # JSON_stringify v)
                               (filter (\<lambda>(k, v). v \<noteq> JUndef) kvs)) @ [CHR ''}'']"

subsection \<open>A reference JSON.parse\<close>

text \<open>
  \<^verbatim>\<open>JSON.parse\<close> itself is a parameter of the services below (\<open>None\<close> is its
  SyntaxError). \<open>json_parse_ref\<close> is a recursive-descent parser for JSON texts without
  \<^verbatim>\<open>\u\<close> escapes and with numbers as described at \<open>parse_number\<close>, used to run the
  services on sample inputs; it gives \<open>None\<close> on every other text.
\<close>

fun skip_ws :: "string \<Rightarrow> string" where
  "skip_ws [] = []"
| "skip_ws (c # cs) =
     (if c = CHR '' '' \<or> c = CHR 0x09 \<or> c = CHR 0x0A \<or> c = CHR 0x0D then skip_ws cs else c # cs)"

definition starts_with :: "string \<Rightarrow> string \<Rightarrow> bool" where
  "starts_with p s = (take (length p) s = p)"

definition expect :: "char \<Rightarrow> string \<Rightarrow> string option" where
  "expect ch cs = (case skip_ws cs of [] \<Rightarrow> None | c # r \<Rightarrow> if c = ch then Some r else None)"

fun parse_string :: "string \<Rightarrow> string \<Rightarrow> (string \<times> string) option" where
  "parse_string [] acc = None"
| "parse_string [c] acc = (if c = CHR 0x22 then Some (rev acc, []) else None)"
| "parse_string (c # e # cs) acc =
     (if c = CHR 0x22 then Some (rev acc, e # cs)
      else if c = CHR 0x5C then
        (if e = CHR 0x22 \<or> e = CHR 0x5C \<or> e = CHR ''/'' then parse_string cs (e # acc)
         else if e = CHR ''b'' then parse_string cs (CHR 0x08 # acc)
         else if e = CHR ''f'' then parse_string cs (CHR 0x0C # acc)
         else if e = CHR ''n'' then parse_string cs (CHR 0x0A # acc)
         else if e = CHR ''r'' then parse_string cs (CHR 0x0D # acc)
         else if e = CHR ''t'' then parse_string cs (CHR 0x09 # acc)
         else None)
      else if (of_char c :: int) < 32 then None
      else parse_string (e # cs) (c # acc))"

definition is_digit :: "char \<Rightarrow> bool" where
  "is_digit c = (48 \<le> (of_char c :: int) \<and> (of_char c :: int) \<le> 57)"

text \<open>
  A number text in plain decimal notation, without trailing zeros in the fraction, of at
  most 15 significant digits and not below \<open>10\<^sup>-\<^sup>6\<close> in absolute value unless zero:
  on such a text \<^verbatim>\<open>JSON.parse\<close> gives the number whose \<^verbatim>\<open>toString\<close> is the text itself
  (\<^verbatim>\<open>"0"\<close> for \<^verbatim>\<open>-0\<close>).
\<close>

definition parse_number :: "string \<Rightarrow> (jsval \<times> string) option" where
  "parse_number cs =
     (let neg = starts_with ''-'' cs;
          body = (if neg then drop 1 cs else cs);
          ds = takeWhile is_digit body;
          rest = dropWhile is_digit body;
          has_frac = starts_with ''.'' rest;
          fs = (if has_frac then takeWhile is_digit (drop 1 rest) else []);
          rest' = (if has_frac then dropWhile is_digit (drop 1 rest) else rest);
          zeros = takeWhile (\<lambda>c. c = CHR ''0'') fs;
          significant = (if ds = ''0'' then length fs - length zeros else length ds + length fs)
      in if ds = [] \<or> (length ds > 1 \<and> hd ds = CHR ''0'') then None
         else if has_frac \<and> (fs = [] \<or> last fs = CHR ''0'') then None
         else if starts_with ''e'' rest' \<or> starts_with ''E'' rest' then None
         else if significant > 15 \<or> (ds = ''0'' \<and> length zeros > 5) then None
         else if has_frac then Some (JNum ((if neg then ''-'' else []) @ ds @ ''.'' @ fs), rest')
         else Some (JNum (if neg \<and> ds \<noteq> ''0'' then CHR ''-'' # ds else ds), rest'))"

fun parse_value :: "nat \<Rightarrow> string \<Rightarrow> (jsval \<times> string) option"
  and parse_elems :: "nat \<Rightarrow> string \<Rightarrow> jsval list \<Rightarrow> (jsval \<times> string) option"
  and parse_members :: "nat \<Rightarrow> string \<Rightarrow> (string \<times> jsval) list \<Rightarrow> (jsval \<times> string) option" where
  "parse_value 0 cs = None"
| "parse_value (Suc n) cs =
     (case skip_ws cs of
        [] \<Rightarrow> None
      | c # rest \<Rightarrow>
          if c = CHR ''{'' then
            (case expect CHR ''}'' rest of Some r \<Rightarrow> Some (JObj [], r) | None \<Rightarrow> parse_members n rest [])
          else if c = CHR ''['' then
            (case expect CHR '']'' rest of Some r \<Rightarrow> Some (JArr [], r) | None \<Rightarrow> parse_elems n rest [])
          else if c = CHR 0x22 then
            (case parse_string rest [] of None \<Rightarrow> None | Some (s, r) \<Rightarrow> Some (JStr s, r))
          else if starts_with ''true'' (c # rest) then Some (JBool True, drop 4 (c # rest))
          else if starts_with ''false'' (c # rest) then Some (JBool False, drop 5 (c # rest))
          else if starts_with ''null'' (c # rest) then Some (JNull, drop 4 (c # rest))
          else parse_number (c # rest))"
| "parse_elems 0 cs acc = None"
| "parse_elems (Suc n) cs acc =
     (case parse_value n cs of
        None \<Rightarrow> None
      | Some (v, r) \<Rightarrow>
          (case expect CHR '','' r of
             Some r' \<Rightarrow> parse_elems n r' (acc @ [v])
           | None \<Rightarrow>
               (case expect CHR '']'' r of
                  Some r' \<Rightarrow> Some (JArr (acc @ [v]), r')
                | None \<Rightarrow> None)))"
| "parse_members 0 cs acc = None"
| "parse_members (Suc n) cs acc =
     (case expect CHR 0x22 cs of
        None \<Rightarrow> None
      | Some r \<Rightarrow>
          (case parse_string r [] of
             None \<Rightarrow> None
           | Some (k, r1) \<Rightarrow>
               (case expect CHR '':'' r1 of
                  None \<Rightarrow> None
                | Some r2 \<Rightarrow>
                    (case parse_value n r2 of
                       None \<Rightarrow> None
                     | Some (v, r3) \<Rightarrow>
                         (case expect CHR '','' r3 of
                            Some r4 \<Rightarrow> parse_members n r4 (AList.update k v acc)
                          | None \<Rightarrow>
                              (case expect CHR ''}'' r3 of
                                 Some r4 \<Rightarrow> Some (JObj (AList.update k v acc), r4)
                               | None \<Rightarrow> None))))))"

definition json_parse_ref :: "string \<Rightarrow> jsval option" where
  "json_parse_ref s =
     (case parse_value (Suc (length s)) s of
        None \<Rightarrow> None
      | Some (v, r) \<Rightarrow> if skip_ws r = [] then Some v else None)"

subsection \<open>btoa and atob\<close>

definition b64_alphabet :: string where
  "b64_alphabet = ''ABCDEFGHIJKLMNOPQRSTUVWXYZabcdefghijklmnopqrstuvwxyz0123456789+/''"

definition b64_char :: "int \<Rightarrow> char" where
  "b64_char n = b64_alphabet ! nat (n mod 64)"

text \<open>
  A string here is a list of 8-bit code units, so \<^verbatim>\<open>btoa\<close> cannot meet a code unit
  above 255 and never raises.
\<close>

fun btoa :: "string \<Rightarrow> string" where
  "btoa [] = []"
| "btoa [a] =
     (let n = of_char a * 65536
      in [b64_char (n div 262144), b64_char (n div 4096), CHR ''='', CHR ''=''])"
| "btoa [a, b] =
     (let n = of_char a * 65536 + of_char b * 256
      in [b64_char (n div 262144), b64_char (n div 4096), b64_char (n div 64), CHR ''=''])"
| "btoa (a # b # c # rest) =
     (let n = of_char a * 65536 + of_char b * 256 + of_char c
      in [b64_char (n div 262144), b64_char (n div 4096), b64_char (n div 64), b64_char n]
         @ btoa rest)"

fun index_of :: "char \<Rightarrow> string \<Rightarrow> int option" where
  "index_of c [] = None"
| "index_of c (x # xs) = (if c = x then Some 0 else map_option (\<lambda>i. i + 1) (index_of c xs))"

fun b64_values :: "string \<Rightarrow> int list option" where
  "b64_values [] = Some []"
| "b64_values (c # cs) =
     (case index_of c b64_alphabet of
        None \<Rightarrow> None
      | Some v \<Rightarrow> map_option ((#) v) (b64_values cs))"

definition byte_char :: "int \<Rightarrow> char" where
  "byte_char n = char_of (n mod 256)"

fun b64_bytes :: "int list \<Rightarrow> string" where
  "b64_bytes (a # b # c # d # rest) =
     (let n = a * 262144 + b * 4096 + c * 64 + d
      in [byte_char (n div 65536), byte_char (n div 256), byte_char n] @ b64_bytes rest)"
| "b64_bytes [a, b, c] =
     (let n = a * 262144 + b * 4096 + c * 64
      in [byte_char (n div 65536), byte_char (n div 256)])"
| "b64_bytes [a, b] = [byte_char ((a * 262144 + b * 4096) div 65536)]"
| "b64_bytes _ = []"

definition is_ascii_ws :: "char \<Rightarrow> bool" where
  "is_ascii_ws c = (c = CHR 0x09 \<or> c = CHR 0x0A \<or> c = CHR 0x0C \<or> c = CHR 0x0D \<or> c = CHR '' '')"

definition strip_padding :: "string \<Rightarrow> string" where
  "strip_padding s =
     (if length s mod 4 = 0 then
        (if starts_with ''=='' (rev s) then take (length s - 2) s
         else if starts_with ''='' (rev s) then take (length s - 1) s
         else s)
      else s)"

text \<open>\<^verbatim>\<open>atob\<close>, the forgiving base64 decoding of the HTML standard; \<open>None\<close> is its
  InvalidCharacterError.\<close>

definition atob :: "string \<Rightarrow> string option" where
  "atob s =
     (let d = strip_padding (filter (\<lambda>c. \<not> is_ascii_ws c) s)
      in if length d mod 4 = 1 then None
         else map_option b64_bytes (b64_values d))"

subsection \<open>localStorage\<close>

text \<open>
  The origin's storage: its items, and the room it has. \<^verbatim>\<open>setItem\<close> raises
  QuotaExceededError when the items would no longer fit.
\<close>

record local_storage =
  items :: "(string \<times> string) list"
  quota :: nat

definition getItem :: "local_storage \<Rightarrow> string \<Rightarrow> string option" where
  "getItem st key = map_of (items st) key"

definition used :: "(string \<times> string) list \<Rightarrow> nat" where
  "used its = sum_list (map (\<lambda>(k, v). length k + length v) its)"

definition setItem :: "local_storage \<Rightarrow> string \<Rightarrow> string \<Rightarrow> error + local_storage" where
  "setItem st key v =
     (let its = AList.update key v (items st)
      in if used its \<le> quota st then Inr (st\<lparr>items := its\<rparr>) else Inl QuotaExceededError)"

definition removeItem :: "local_storage \<Rightarrow> string \<Rightarrow> local_storage" where
  "removeItem st key = st\<lparr>items := AList.delete key (items st)\<rparr>"

text \<open>\<^verbatim>\<open>if (x)\<close> on what \<^verbatim>\<open>getItem\<close> returns: null and the empty string are falsy.\<close>

definition present :: "string option \<Rightarrow> bool" where
  "present x = (case x of None \<Rightarrow> False | Some s \<Rightarrow> s \<noteq> [])"

section \<open>The environment of the services\<close>

text \<open>
  What the remote calls of one run resolve to, the clock, the random source, and the
  platform's \<^verbatim>\<open>JSON.parse\<close> and \<^verbatim>\<open>encodeURIComponent\<close>. An auth call resolves to
  data and error; a database call of dataService may also reject, which the source catches.
\<close>

datatype ai_outcome = AiThrows error | AiText "string option"

record auth_error =
  ae_status :: "int option"
  ae_code :: "string option"
  ae_message :: "string option"

record signup_response =
  su_user :: "auth_user option"
  su_error :: "auth_error option"

record signin_response =
  si_user :: "auth_user option"
  si_error :: "auth_error option"

datatype 'a settled = Rejected error | Resolved 'a

record select_response =
  ds_data :: "jsval list option"
  ds_error :: "error option"

record env =
  JSON_parse :: "string \<Rightarrow> jsval option"
  encodeURIComponent :: "string \<Rightarrow> string"
  Date_now :: int
  random36 :: "nat \<Rightarrow> string"
  generateContent :: "string \<Rightarrow> ai_outcome"
  auth_signUp :: "string \<Rightarrow> string \<Rightarrow> string \<Rightarrow> string \<Rightarrow> string \<Rightarrow> signup_response"
  auth_signInWithPassword :: "jsval \<Rightarrow> jsval \<Rightarrow> signin_response"
  profiles_single :: "string \<Rightarrow> nat \<Rightarrow> select_result"
  entries_select :: "select_response settled"
  entries_insert :: "jsval \<Rightarrow> error option settled"

text \<open>
  \<open>random36 env k\<close> is \<^verbatim>\<open>Math.random().toString(36)\<close> of the \<open>k\<close>-th draw of a run;
  \<open>generateContent env d\<close> is the reply of the vision model to the image data \<open>d\<close>;
  \<open>auth_signUp env email password name role avatar_url\<close> and
  \<open>auth_signInWithPassword env email password\<close> are the replies of the auth service.
\<close>

section \<open>geminiService.analyzeFaceForAccess\<close>

text \<open>\<^verbatim>\<open>base64Image.replace(/^data:image\/(png|jpeg|jpg);base64,/, "")\<close>\<close>

definition cleanBase64 :: "string \<Rightarrow> string" where
  "cleanBase64 base64Image =
     (if starts_with ''data:image/png;base64,'' base64Image
        then drop (length ''data:image/png;base64,'') base64Image
      else if starts_with ''data:image/jpeg;base64,'' base64Image
        then drop (length ''data:image/jpeg;base64,'') base64Image
      else if starts_with ''data:image/jpg;base64,'' base64Image
        then drop (length ''data:image/jpg;base64,'') base64Image
      else base64Image)"

definition no_response_reply :: string where
  \<open>no_response_reply = ''{"authorized": false, "reason": "No response from AI"}''\<close>

definition service_unavailable :: jsval where
  "service_unavailable =
     JObj [(''authorized'', JBool False),
           (''reason'', JStr ''Biometric Service Unavailable. Check connection.'')]"

text \<open>The body of the \<^verbatim>\<open>try\<close>: the call, then \<^verbatim>\<open>JSON.parse(response.text || '...')\<close>.\<close>

definition analyze_try :: "env \<Rightarrow> string \<Rightarrow> error + jsval" where
  "analyze_try env base64Image =
     (case generateContent env (cleanBase64 base64Image) of
        AiThrows e \<Rightarrow> Inl e
      | AiText text \<Rightarrow>
          (case JSON_parse env (or_default text no_response_reply) of
             None \<Rightarrow> Inl SyntaxError
           | Some result \<Rightarrow> Inr result))"

definition analyzeFaceForAccess :: "env \<Rightarrow> string \<Rightarrow> (error + jsval) \<times> event list" where
  "analyzeFaceForAccess env base64Image =
     (case analyze_try env base64Image of
        Inl e \<Rightarrow> (Inr service_unavailable, [EvGenerateContent (cleanBase64 base64Image)])
      | Inr result \<Rightarrow> (Inr result, [EvGenerateContent (cleanBase64 base64Image)]))"

section \<open>authService\<close>

definition BIOMETRIC_VAULT_KEY :: string where
  "BIOMETRIC_VAULT_KEY = ''lrw_biometric_vault''"

subsection \<open>signUp and signIn\<close>

record signup_result =
  reg_user :: "auth_user option"
  reg_error :: "error option"

definition avatar_url_for :: "env \<Rightarrow> string \<Rightarrow> string" where
  "avatar_url_for env name =
     ''https://ui-avatars.com/api/?name='' @ encodeURIComponent env name @ ''&background=random''"

definition signUp ::
  "env \<Rightarrow> string \<Rightarrow> string \<Rightarrow> string \<Rightarrow> string \<Rightarrow> (error + signup_result) \<times> event list" where
  "signUp env email password name role =
     (let r = auth_signUp env email password name role (avatar_url_for env name);
          evs = [EvSignUp email password name role]
      in case su_error r of
           Some authError \<Rightarrow>
             if ae_status authError = Some 500 \<or> ae_code authError = Some ''unexpected_failure''
             then (Inl DatabaseConfigError, evs)
             else (Inl (RegistrationError (or_default (ae_message authError) ''Registration failed'')), evs)
         | None \<Rightarrow>
             (case su_user r of
                None \<Rightarrow> (Inl UserCreationFailed, evs)
              | Some u \<Rightarrow> (Inr \<lparr>reg_user = Some u, reg_error = None\<rparr>, evs)))"

definition signIn :: "env \<Rightarrow> jsval \<Rightarrow> jsval \<Rightarrow> profile_result \<times> event list" where
  "signIn env email password =
     (let r = auth_signInWithPassword env email password;
          evs = [EvSignIn email password]
      in case si_error r of
           Some error \<Rightarrow>
             (\<lparr>appUser = None,
               pr_error = Some (SignInError (case ae_message error of None \<Rightarrow> [] | Some m \<Rightarrow> m))\<rparr>, evs)
         | None \<Rightarrow>
             (case si_user r of
                None \<Rightarrow> (\<lparr>appUser = None, pr_error = Some NoUserFound\<rparr>, evs)
              | Some u \<Rightarrow>
                  (let (res, evs') = getUserProfile (profiles_single env) (au_id u) (Some u)
                   in (res, evs @ evs'))))"

subsection \<open>The vault\<close>

definition isDeviceEnrolled :: "local_storage \<Rightarrow> bool" where
  "isDeviceEnrolled st = present (getItem st BIOMETRIC_VAULT_KEY)"

definition resetEnrollment :: "local_storage \<Rightarrow> local_storage" where
  "resetEnrollment st = removeItem st BIOMETRIC_VAULT_KEY"

text \<open>Step 4 of enrollDevice: \<^verbatim>\<open>btoa(JSON.stringify({ email, password }))\<close>, then the write.\<close>

definition vaultData :: "string \<Rightarrow> string \<Rightarrow> string" where
  "vaultData email password =
     btoa (JSON_stringify (JObj [(''email'', JStr email), (''password'', JStr password)]))"

definition store_vault :: "local_storage \<Rightarrow> string \<Rightarrow> string \<Rightarrow> error + local_storage" where
  "store_vault st email password = setItem st BIOMETRIC_VAULT_KEY (vaultData email password)"

subsection \<open>enrollDevice\<close>

text \<open>Step 2: the credentials, from the clock and two random draws.\<close>

definition credentials :: "env \<Rightarrow> string \<times> string" where
  "credentials env =
     (let timestamp = Date_now env;
          randomSuffix = drop 7 (random36 env 0);
          email = ''officer.'' @ show_int timestamp @ ''.'' @ randomSuffix @ ''@lankareservoir.secure'';
          password = ''SECURE_'' @ show_int timestamp @ ''_'' @ drop 2 (random36 env 1) @ ''!@#''
      in (email, password))"

text \<open>Steps 3 to 5, once the face is accepted.\<close>

definition register_and_login ::
  "env \<Rightarrow> local_storage \<Rightarrow> string \<Rightarrow> string \<Rightarrow> (error + user) \<times> local_storage \<times> event list" where
  "register_and_login env st name role =
     (let (email, password) = credentials env;
          (reg, ev2) = signUp env email password name role
      in case reg of
           Inl e \<Rightarrow> (Inl e, st, ev2)
         | Inr r \<Rightarrow>
             (case reg_error r of
                Some e \<Rightarrow> (Inl e, st, ev2)
              | None \<Rightarrow>
                  (case reg_user r of
                     None \<Rightarrow> (Inl CloudRegistrationFailed, st, ev2)
                   | Some u \<Rightarrow>
                       (case store_vault st email password of
                          Inl e \<Rightarrow> (Inl e, st, ev2)
                        | Inr st' \<Rightarrow>
                            (let (login, ev3) = signIn env (JStr email) (JStr password)
                             in case pr_error login of
                                  Some loginError \<Rightarrow> (Inl EnrollmentLoginFailed, st', ev2 @ ev3)
                                | None \<Rightarrow>
                                    (case appUser login of
                                       None \<Rightarrow> (Inl EnrollmentLoginFailed, st', ev2 @ ev3)
                                     | Some u' \<Rightarrow> (Inr u', st', ev2 @ ev3)))))))"

definition enrollDevice ::
  "env \<Rightarrow> local_storage \<Rightarrow> string \<Rightarrow> string \<Rightarrow> string \<Rightarrow> (error + user) \<times> local_storage \<times> event list" where
  "enrollDevice env st name role faceImageBase64 =
     (let (analysis, ev1) = analyzeFaceForAccess env faceImageBase64
      in case analysis of
           Inl e \<Rightarrow> (Inl e, st, ev1)
         | Inr a \<Rightarrow>
             (case js_get a ''authorized'' of
                Inl e \<Rightarrow> (Inl e, st, ev1)
              | Inr authorized \<Rightarrow>
                  if \<not> truthy authorized then
                    (case js_get a ''reason'' of
                       Inl e \<Rightarrow> (Inl e, st, ev1)
                     | Inr reason \<Rightarrow> (Inl (FaceEnrollmentFailed reason), st, ev1))
                  else
                    (let (res, st', evs) = register_and_login env st name role
                     in (res, st', ev1 @ evs))))"

subsection \<open>faceLogin\<close>

text \<open>The body of the \<^verbatim>\<open>try\<close> of step 3 and 4.\<close>

definition unlock_and_sign_in :: "env \<Rightarrow> string \<Rightarrow> (error + user) \<times> event list" where
  "unlock_and_sign_in env vault =
     (case atob vault of
        None \<Rightarrow> (Inl InvalidCharacterError, [])
      | Some json \<Rightarrow>
          (case JSON_parse env json of
             None \<Rightarrow> (Inl SyntaxError, [])
           | Some creds \<Rightarrow>
               (case js_get creds ''email'' of
                  Inl e \<Rightarrow> (Inl e, [])
                | Inr email \<Rightarrow>
                    (case js_get creds ''password'' of
                       Inl e \<Rightarrow> (Inl e, [])
                     | Inr password \<Rightarrow>
                         (let (login, evs) = signIn env email password
                          in case pr_error login of
                               Some error \<Rightarrow> (Inl error, evs)
                             | None \<Rightarrow>
                                 (case appUser login of
                                    None \<Rightarrow> (Inl UserNotFound, evs)
                                  | Some u \<Rightarrow> (Inr u, evs)))))))"

definition faceLogin :: "env \<Rightarrow> local_storage \<Rightarrow> string \<Rightarrow> (error + user) \<times> event list" where
  "faceLogin env st faceImageBase64 =
     (case getItem st BIOMETRIC_VAULT_KEY of
        None \<Rightarrow> (Inl DeviceNotEnrolled, [])
      | Some vault \<Rightarrow>
          if vault = [] then (Inl DeviceNotEnrolled, [])
          else
            (let (analysis, ev1) = analyzeFaceForAccess env faceImageBase64
             in case analysis of
                  Inl e \<Rightarrow> (Inl e, ev1)
                | Inr a \<Rightarrow>
                    (case js_get a ''authorized'' of
                       Inl e \<Rightarrow> (Inl e, ev1)
                     | Inr authorized \<Rightarrow>
                         if \<not> truthy authorized then
                           (case js_get a ''reason'' of
                              Inl e \<Rightarrow> (Inl e, ev1)
                            | Inr reason \<Rightarrow> (Inl (AccessDenied reason), ev1))
                         else
                           (case unlock_and_sign_in env vault of
                              (Inl e, ev2) \<Rightarrow> (Inl TokenCorrupted, ev1 @ ev2)
                            | (Inr u, ev2) \<Rightarrow> (Inr u, ev1 @ ev2)))))"

section \<open>The Auth component\<close>

datatype mode = CHECK | ENROLL | VERIFY

text \<open>
  The state of the component that the verification loop reads and writes:
  \<open>isScanning\<close> is \<^verbatim>\<open>isScanningRef.current\<close>, \<open>scanInterval\<close> tells whether
  \<^verbatim>\<open>scanIntervalRef.current\<close> is set, \<open>camera\<close> whether \<^verbatim>\<open>streamRef.current\<close> is, and
  \<open>loggedIn\<close> whether \<^verbatim>\<open>onLoginSuccess\<close> has been called.
\<close>

record auth_ui =
  ui_mode :: mode
  isLoading :: bool
  ui_error :: "string option"
  statusMessage :: string
  isScanning :: bool
  scanInterval :: bool
  camera :: bool
  loggedIn :: bool

text \<open>
  What the component shows in its status line for a state (the "Status Messages" block of
  the render): the status message while loading, else the error if there is one, else a
  fixed text for the mode.
\<close>

definition status_line :: "auth_ui \<Rightarrow> string" where
  "status_line u =
     (if isLoading u then statusMessage u
      else case ui_error u of
             Some e \<Rightarrow>
               if e \<noteq> [] then e
               else if ui_mode u = VERIFY then ''Scanning...'' else ''Waiting for input''
           | None \<Rightarrow> if ui_mode u = VERIFY then ''Scanning...'' else ''Waiting for input'')"

text \<open>handleAutoVerify up to its \<^verbatim>\<open>await\<close>, and from there on, given what faceLogin
  settled to.\<close>

definition handleAutoVerify_begin :: "auth_ui \<Rightarrow> auth_ui" where
  "handleAutoVerify_begin ui =
     ui\<lparr>isScanning := True, isLoading := True, statusMessage := ''Scanning...'', ui_error := None\<rparr>"

definition handleAutoVerify_settle :: "auth_ui \<Rightarrow> error + user \<Rightarrow> auth_ui" where
  "handleAutoVerify_settle ui r =
     (case r of
        Inr u \<Rightarrow>
          ui\<lparr>scanInterval := False, camera := False, statusMessage := ''Identity Verified'',
             loggedIn := True\<rparr>
      | Inl err \<Rightarrow>
          ui\<lparr>statusMessage := ''Adjust face position...'', isLoading := False, isScanning := False\<rparr>)"

text \<open>One whole attempt. Its \<^verbatim>\<open>catch\<close> takes every error, so the result is never \<open>Inl\<close>.\<close>

definition handleAutoVerify ::
  "env \<Rightarrow> local_storage \<Rightarrow> auth_ui \<Rightarrow> string \<Rightarrow> (error + auth_ui) \<times> event list" where
  "handleAutoVerify env st ui img =
     (let (r, evs) = faceLogin env st img
      in (Inr (handleAutoVerify_settle (handleAutoVerify_begin ui) r), evs))"

definition handleReset :: "auth_ui \<Rightarrow> auth_ui" where
  "handleReset ui = ui\<lparr>scanInterval := False, ui_mode := ENROLL, ui_error := None\<rparr>"

text \<open>
  The verification loop as a transition system over the events of the event loop:
  startScanningLoop is called, the interval fires (with the \<^verbatim>\<open>mode\<close> its closure
  holds and what captureImage returns), the oldest outstanding faceLogin settles, the
  user confirms a reset. \<open>pending\<close> holds the attempts in flight: what each faceLogin
  will settle to, and the remote calls it makes.
\<close>

datatype scan_event = StartLoop | Tick mode "string option" | Settle | Reset

record scan_state =
  scan_ui :: auth_ui
  scan_storage :: local_storage
  pending :: "((error + user) \<times> event list) list"

definition startScanningLoop :: "auth_ui \<Rightarrow> auth_ui" where
  "startScanningLoop u = (if scanInterval u then u else u\<lparr>scanInterval := True\<rparr>)"

fun scan_step :: "env \<Rightarrow> scan_state \<Rightarrow> scan_event \<Rightarrow> scan_state" where
  "scan_step env s StartLoop = s\<lparr>scan_ui := startScanningLoop (scan_ui s)\<rparr>"
| "scan_step env s (Tick m captured) =
     (if \<not> scanInterval (scan_ui s) then s
      else if isScanning (scan_ui s) \<or> m \<noteq> VERIFY then s
      else case captured of
             None \<Rightarrow> s
           | Some img \<Rightarrow>
               s\<lparr>scan_ui := handleAutoVerify_begin (scan_ui s),
                 pending := pending s @ [faceLogin env (scan_storage s) img]\<rparr>)"
| "scan_step env s Settle =
     (case pending s of
        [] \<Rightarrow> s
      | (r, evs) # rest \<Rightarrow> s\<lparr>scan_ui := handleAutoVerify_settle (scan_ui s) r, pending := rest\<rparr>)"
| "scan_step env s Reset =
     s\<lparr>scan_storage := resetEnrollment (scan_storage s), scan_ui := handleReset (scan_ui s)\<rparr>"

fun scan_run :: "env \<Rightarrow> scan_state \<Rightarrow> scan_event list \<Rightarrow> scan_state" where
  "scan_run env s [] = s"
| "scan_run env s (e # es) = scan_run env (scan_step env s e) es"

text \<open>The Biometric Gate calls in a log, and those of the attempts in flight.\<close>

definition gate_calls :: "event list \<Rightarrow> nat" where
  "gate_calls evs = length (filter (\<lambda>e. case e of EvGenerateContent _ \<Rightarrow> True | _ \<Rightarrow> False) evs)"

definition gate_calls_in_flight :: "scan_state \<Rightarrow> nat" where
  "gate_calls_in_flight s = sum_list (map (\<lambda>(r, evs). gate_calls evs) (pending s))"

definition sign_ins :: "event list \<Rightarrow> nat" where
  "sign_ins evs = length (filter (\<lambda>e. case e of EvSignIn _ _ \<Rightarrow> True | _ \<Rightarrow> False) evs)"

section \<open>dataService\<close>

definition LOCAL_STORAGE_KEY :: string where
  "LOCAL_STORAGE_KEY = ''reservoir_entries''"

datatype source = MYSQL | LOCAL

record entries_result =
  er_data :: jsval
  er_source :: source
  er_isMissingTable :: bool

text \<open>\<^verbatim>\<open>error.code\<close> of a caught value.\<close>

fun error_code :: "error \<Rightarrow> string option" where
  "error_code (RemoteError code message) = code"
| "error_code e = None"

definition js_prop :: "jsval \<Rightarrow> string \<Rightarrow> jsval" where
  "js_prop v key = (case js_get v key of Inl e \<Rightarrow> JUndef | Inr x \<Rightarrow> x)"

text \<open>The mapping of one database row; the first property read raises on a row that is
  null or undefined.\<close>

definition map_row :: "jsval \<Rightarrow> error + jsval" where
  "map_row row =
     (case js_get row ''id'' of
        Inl e \<Rightarrow> Inl e
      | Inr rid \<Rightarrow>
          Inr (JObj [(''id'', rid),
                     (''name'', js_prop row ''name''),
                     (''locationName'', js_prop row ''location_name''),
                     (''coordinates'', JObj [(''latitude'', js_prop row ''latitude''),
                                             (''longitude'', js_prop row ''longitude'')]),
                     (''waterLevel'', js_prop row ''water_level''),
                     (''capacityPercentage'', js_prop row ''capacity_percentage''),
                     (''status'', js_prop row ''status''),
                     (''notes'', js_prop row ''notes''),
                     (''timestamp'', js_prop row ''timestamp''),
                     (''submittedBy'', js_prop row ''submitted_by''),
                     (''isVerified'', js_prop row ''is_verified''),
                     (''geminiAnalysis'', js_prop row ''gemini_analysis''),
                     (''groundingUrl'', js_prop row ''grounding_url'')]))"

fun map_rows :: "jsval list \<Rightarrow> error + jsval list" where
  "map_rows [] = Inr []"
| "map_rows (row # rows) =
     (case map_row row of
        Inl e \<Rightarrow> Inl e
      | Inr x \<Rightarrow> (case map_rows rows of Inl e \<Rightarrow> Inl e | Inr xs \<Rightarrow> Inr (x # xs)))"

text \<open>The body of the \<^verbatim>\<open>try\<close> of getEntries.\<close>

definition select_entries :: "env \<Rightarrow> error + jsval list" where
  "select_entries env =
     (case entries_select env of
        Rejected e \<Rightarrow> Inl e
      | Resolved r \<Rightarrow>
          (case ds_error r of
             Some error \<Rightarrow> Inl error
           | None \<Rightarrow> map_rows (case ds_data r of None \<Rightarrow> [] | Some rows \<Rightarrow> rows)))"

text \<open>\<^verbatim>\<open>saved ? JSON.parse(saved) : []\<close>\<close>

definition saved_entries :: "env \<Rightarrow> local_storage \<Rightarrow> error + jsval" where
  "saved_entries env st =
     (case getItem st LOCAL_STORAGE_KEY of
        None \<Rightarrow> Inr (JArr [])
      | Some saved \<Rightarrow>
          if saved = [] then Inr (JArr [])
          else (case JSON_parse env saved of None \<Rightarrow> Inl SyntaxError | Some v \<Rightarrow> Inr v))"

definition getEntries :: "env \<Rightarrow> local_storage \<Rightarrow> (error + entries_result) \<times> event list" where
  "getEntries env st =
     (case select_entries env of
        Inr mappedData \<Rightarrow>
          (Inr \<lparr>er_data = JArr mappedData, er_source = MYSQL, er_isMissingTable = False\<rparr>,
           [EvDbSelect])
      | Inl error \<Rightarrow>
          (let isMissingTable = (error_code error = Some ''PGRST205'')
           in case saved_entries env st of
                Inl e \<Rightarrow> (Inl e, [EvDbSelect])
              | Inr data \<Rightarrow>
                  (Inr \<lparr>er_data = data, er_source = LOCAL, er_isMissingTable = isMissingTable\<rparr>,
                   [EvDbSelect])))"

text \<open>A ReservoirEntry, as typed; a number is carried as its text.\<close>

record coordinates =
  latitude :: string
  longitude :: string

record reservoir_entry =
  entry_id :: string
  entry_name :: string
  locationName :: string
  coordinates :: coordinates
  waterLevel :: string
  capacityPercentage :: string
  entry_status :: string
  entry_notes :: string
  entry_timestamp :: string
  submittedBy :: string
  isVerified :: bool
  geminiAnalysis :: "string option"
  groundingUrl :: "string option"

definition opt_str :: "string option \<Rightarrow> jsval" where
  "opt_str x = (case x of None \<Rightarrow> JUndef | Some s \<Rightarrow> JStr s)"

text \<open>The entry as a value, its fields in the order DataEntryForm builds them.\<close>

definition entry_value :: "reservoir_entry \<Rightarrow> jsval" where
  "entry_value entry =
     JObj [(''id'', JStr (entry_id entry)),
           (''name'', JStr (entry_name entry)),
           (''locationName'', JStr (locationName entry)),
           (''coordinates'', JObj [(''latitude'', JNum (latitude (coordinates entry))),
                                   (''longitude'', JNum (longitude (coordinates entry)))]),
           (''waterLevel'', JNum (waterLevel entry)),
           (''capacityPercentage'', JNum (capacityPercentage entry)),
           (''status'', JStr (entry_status entry)),
           (''notes'', JStr (entry_notes entry)),
           (''timestamp'', JNum (entry_timestamp entry)),
           (''submittedBy'', JStr (submittedBy entry)),
           (''isVerified'', JBool (isVerified entry)),
           (''geminiAnalysis'', opt_str (geminiAnalysis entry)),
           (''groundingUrl'', opt_str (groundingUrl entry))]"

definition dbPayload :: "reservoir_entry \<Rightarrow> jsval" where
  "dbPayload entry =
     JObj [(''id'', JStr (entry_id entry)),
           (''name'', JStr (entry_name entry)),
           (''location_name'', JStr (locationName entry)),
           (''latitude'', JNum (latitude (coordinates entry))),
           (''longitude'', JNum (longitude (coordinates entry))),
           (''water_level'', JNum (waterLevel entry)),
           (''capacity_percentage'', JNum (capacityPercentage entry)),
           (''status'', JStr (entry_status entry)),
           (''notes'', JStr (entry_notes entry)),
           (''timestamp'', JNum (entry_timestamp entry)),
           (''submitted_by'', JStr (submittedBy entry)),
           (''is_verified'', JBool (isVerified entry)),
           (''gemini_analysis'', opt_str (geminiAnalysis entry)),
           (''grounding_url'', opt_str (groundingUrl entry))]"

text \<open>The first \<^verbatim>\<open>try\<close> of addEntry: whether the insert succeeded.\<close>

definition insert_entry :: "env \<Rightarrow> reservoir_entry \<Rightarrow> bool" where
  "insert_entry env entry =
     (case entries_insert env (dbPayload entry) of
        Rejected e \<Rightarrow> False
      | Resolved error \<Rightarrow> error = None)"

text \<open>The body of the second \<^verbatim>\<open>try\<close>: read, parse, prepend, write back.\<close>

definition mirror_entry :: "env \<Rightarrow> local_storage \<Rightarrow> reservoir_entry \<Rightarrow> error + local_storage" where
  "mirror_entry env st entry =
     (case saved_entries env st of
        Inl e \<Rightarrow> Inl e
      | Inr entries \<Rightarrow>
          (case js_spread entries of
             Inl e \<Rightarrow> Inl e
           | Inr old \<Rightarrow>
               setItem st LOCAL_STORAGE_KEY (JSON_stringify (JArr (entry_value entry # old)))))"

definition addEntry ::
  "env \<Rightarrow> local_storage \<Rightarrow> reservoir_entry \<Rightarrow> (error + unit) \<times> local_storage \<times> event list" where
  "addEntry env st entry =
     (let success = insert_entry env entry;
          st' = (case mirror_entry env st entry of Inl e \<Rightarrow> st | Inr st1 \<Rightarrow> st1);
          message = (if success then ''Data saved to Supabase''
                     else ''Data saved to LocalStorage (Offline/Fallback Mode). Reason:'')
      in (Inr (), st', [EvDbInsert (dbPayload entry), EvConsole message]))"

text \<open>
  deleteEntry. The remote delete is best effort: its error is logged, a rejection is
  caught, and nothing else depends on its outcome. The local part is not guarded: \<^verbatim>\<open>JSON.parse\<close> and \<^verbatim>\<open>entries.filter\<close> may
  raise (\<^verbatim>\<open>filter\<close> exists on arrays only, and \<^verbatim>\<open>e.id\<close> raises on a null element).
\<close>

fun filter_by_id :: "jsval list \<Rightarrow> string \<Rightarrow> error + jsval list" where
  "filter_by_id [] entryId = Inr []"
| "filter_by_id (e # es) entryId =
     (case js_get e ''id'' of
        Inl err \<Rightarrow> Inl err
      | Inr eid \<Rightarrow>
          (case filter_by_id es entryId of
             Inl err \<Rightarrow> Inl err
           | Inr rest \<Rightarrow> Inr (if eid \<noteq> JStr entryId then e # rest else rest)))"

definition delete_local :: "env \<Rightarrow> local_storage \<Rightarrow> string \<Rightarrow> error + local_storage" where
  "delete_local env st entryId =
     (case getItem st LOCAL_STORAGE_KEY of
        None \<Rightarrow> Inr st
      | Some saved \<Rightarrow>
          if saved = [] then Inr st
          else
            (case JSON_parse env saved of
               None \<Rightarrow> Inl SyntaxError
             | Some (JArr entries) \<Rightarrow>
                 (case filter_by_id entries entryId of
                    Inl e \<Rightarrow> Inl e
                  | Inr filtered \<Rightarrow> setItem st LOCAL_STORAGE_KEY (JSON_stringify (JArr filtered)))
             | Some v \<Rightarrow> Inl TypeError))"

definition deleteEntry ::
  "env \<Rightarrow> local_storage \<Rightarrow> string \<Rightarrow> (error + unit) \<times> local_storage \<times> event list" where
  "deleteEntry env st entryId =
     (case delete_local env st entryId of
        Inl e \<Rightarrow> (Inl e, st, [EvDbDelete entryId])
      | Inr st' \<Rightarrow> (Inr (), st', [EvDbDelete entryId]))"

section \<open>Notions of the specification\<close>

text \<open>A \<open>{authorized, reason}\<close> verdict: an object with a boolean and a string field.\<close>

definition is_verdict :: "jsval \<Rightarrow> bool" where
  "is_verdict v =
     (case v of
        JObj kvs \<Rightarrow>
          (case map_of kvs ''authorized'' of
             Some (JBool b) \<Rightarrow> (case map_of kvs ''reason'' of Some (JStr r) \<Rightarrow> True | _ \<Rightarrow> False)
           | _ \<Rightarrow> False)
      | _ \<Rightarrow> False)"

text \<open>A verdict with \<open>authorized = false\<close> and a reason that is not empty.\<close>

definition is_rejection :: "jsval \<Rightarrow> bool" where
  "is_rejection v =
     (case v of
        JObj kvs \<Rightarrow>
          map_of kvs ''authorized'' = Some (JBool False)
          \<and> (case map_of kvs ''reason'' of Some (JStr r) \<Rightarrow> r \<noteq> [] | _ \<Rightarrow> False)
      | _ \<Rightarrow> False)"

text \<open>What the reply used for an empty response reads as.\<close>

definition no_response_verdict :: jsval where
  "no_response_verdict =
     JObj [(''authorized'', JBool False), (''reason'', JStr ''No response from AI'')]"

text \<open>The Biometric Gate accepts an image: \<^verbatim>\<open>analysis.authorized\<close> is truthy.\<close>

definition gate_accepts :: "env \<Rightarrow> string \<Rightarrow> bool" where
  "gate_accepts env img =
     (case fst (analyzeFaceForAccess env img) of
        Inl e \<Rightarrow> False
      | Inr a \<Rightarrow> (case js_get a ''authorized'' of Inl e \<Rightarrow> False | Inr x \<Rightarrow> truthy x))"

text \<open>The Biometric Gate returns \<open>authorized = false\<close> for an image.\<close>

definition gate_rejects :: "env \<Rightarrow> string \<Rightarrow> bool" where
  "gate_rejects env img =
     (case fst (analyzeFaceForAccess env img) of
        Inl e \<Rightarrow> False
      | Inr a \<Rightarrow> js_get a ''authorized'' = Inr (JBool False))"

text \<open>The credential pairs handed to the auth service's sign-up in a log.\<close>

fun signup_credentials :: "event list \<Rightarrow> (string \<times> string) list" where
  "signup_credentials [] = []"
| "signup_credentials (EvSignUp email password name role # evs) =
     (email, password) # signup_credentials evs"
| "signup_credentials (e # evs) = signup_credentials evs"

text \<open>What the auth service's sign-up failure is surfaced as by signUp.\<close>

definition registration_error :: "signup_response \<Rightarrow> error" where
  "registration_error r =
     (case su_error r of
        Some authError \<Rightarrow>
          if ae_status authError = Some 500 \<or> ae_code authError = Some ''unexpected_failure''
          then DatabaseConfigError
          else RegistrationError (or_default (ae_message authError) ''Registration failed'')
      | None \<Rightarrow> UserCreationFailed)"

text \<open>
  The invariant of the verification loop: at most one attempt is in flight, the guard
  \<open>isScanning\<close> is up while it is, and an attempt calls the Biometric Gate at most once.
\<close>

definition scan_inv :: "scan_state \<Rightarrow> bool" where
  "scan_inv s =
     (length (pending s) \<le> 1
      \<and> (pending s = [] \<or> isScanning (scan_ui s))
      \<and> list_all (\<lambda>(r, evs). gate_calls evs \<le> 1) (pending s))"

text \<open>
  What a device does to its localStorage: the vault write of enrollDevice (step 4), the
  removal of resetEnrollment, and the cache writes of addEntry and deleteEntry.
  \<open>device_run\<close> performs a list of these and keeps the history of those that
  completed, the most recent first; a vault write that the storage refuses did not
  complete.
\<close>

datatype device_op =
  VaultStore string string | VaultClear | AddEntry reservoir_entry | DeleteEntry string

fun device_step :: "env \<Rightarrow> local_storage \<Rightarrow> device_op \<Rightarrow> local_storage \<times> bool" where
  "device_step env st (VaultStore email password) =
     (case store_vault st email password of Inl e \<Rightarrow> (st, False) | Inr st' \<Rightarrow> (st', True))"
| "device_step env st VaultClear = (resetEnrollment st, True)"
| "device_step env st (AddEntry entry) = (fst (snd (addEntry env st entry)), True)"
| "device_step env st (DeleteEntry entryId) = (fst (snd (deleteEntry env st entryId)), True)"

fun device_run ::
  "env \<Rightarrow> local_storage \<times> device_op list \<Rightarrow> device_op list \<Rightarrow> local_storage \<times> device_op list" where
  "device_run env (st, history) [] = (st, history)"
| "device_run env (st, history) (x # xs) =
     (let (st', completed) = device_step env st x
      in device_run env (st', if completed then x # history else history) xs)"

text \<open>
  In the spec's words: \<open>store()\<close> has been called more recently than \<open>clear()\<close>. On a
  history with the most recent operation first, the first vault operation is a store.
\<close>

fun stored_more_recently_than_cleared :: "device_op list \<Rightarrow> bool" where
  "stored_more_recently_than_cleared [] = False"
| "stored_more_recently_than_cleared (VaultStore email password # earlier) = True"
| "stored_more_recently_than_cleared (VaultClear # earlier) = False"
| "stored_more_recently_than_cleared (AddEntry entry # earlier) =
     stored_more_recently_than_cleared earlier"
| "stored_more_recently_than_cleared (DeleteEntry entryId # earlier) =
     stored_more_recently_than_cleared earlier"

text \<open>The local cache as addEntry reads it: the entries of the cached array, if the
  cached text parses to something iterable.\<close>

definition cached_entries :: "env \<Rightarrow> local_storage \<Rightarrow> jsval list option" where
  "cached_entries env st =
     (case saved_entries env st of
        Inl e \<Rightarrow> None
      | Inr v \<Rightarrow> (case js_spread v of Inl e \<Rightarrow> None | Inr old \<Rightarrow> Some old))"

text \<open>Sample remote behaviours: a profile row that becomes visible at the \<open>k\<close>-th select,
  and a store that never shows one.\<close>

definition row_perera :: profile_row where
  "row_perera = \<lparr>row_id = ''u1'', row_name = ''J. Perera'', row_role = ADMIN, row_avatar_url = ''p.png''\<rparr>"

definition no_row :: select_result where
  "no_row = \<lparr>sel_data = None, sel_error = Some (RemoteError (Some ''PGRST116'') ''no rows'')\<rparr>"

definition rows_from :: "nat \<Rightarrow> string \<Rightarrow> nat \<Rightarrow> select_result" where
  "rows_from k userId n = (if k \<le> n then \<lparr>sel_data = Some row_perera, sel_error = None\<rparr> else no_row)"

definition never_rows :: "string \<Rightarrow> nat \<Rightarrow> select_result" where
  "never_rows userId n = no_row"

definition auth_user_no_role :: auth_user where
  "auth_user_no_role = \<lparr>au_id = ''u1'', au_user_metadata =
     Some \<lparr>meta_name = Some ''J. Perera'', meta_role = None, meta_avatar_url = None\<rparr>\<rparr>"

text \<open>A reference \<^verbatim>\<open>encodeURIComponent\<close> for code units below 128.\<close>

definition uri_unreserved :: "char \<Rightarrow> bool" where
  "uri_unreserved c =
     (let n = (of_char c :: int)
      in (48 \<le> n \<and> n \<le> 57) \<or> (65 \<le> n \<and> n \<le> 90) \<or> (97 \<le> n \<and> n \<le> 122)
         \<or> c \<in> set ''-_.!~*()'' \<or> n = 39)"

definition upper_hex :: "int \<Rightarrow> char" where
  "upper_hex d = (if d < 10 then char_of (48 + d) else char_of (55 + d))"

definition encode_uri_ref :: "string \<Rightarrow> string" where
  "encode_uri_ref s =
     concat (map (\<lambda>c. if uri_unreserved c then [c]
                       else [CHR ''%'', upper_hex (of_char c div 16), upper_hex (of_char c mod 16)]) s)"

text \<open>
  A sample run: the gate accepts the image \<open>GOODFACE\<close>, rejects \<open>BADFACE\<close> and is
  out of reach for any other; registration succeeds; sign-in succeeds with the
  credentials of this run; the profile row is visible at once; the database is up.
\<close>

definition perera_metadata :: metadata where
  "perera_metadata =
     \<lparr>meta_name = Some ''J. Perera'', meta_role = Some ADMIN, meta_avatar_url = Some ''p.png''\<rparr>"

definition perera_auth :: auth_user where
  "perera_auth = \<lparr>au_id = ''u1'', au_user_metadata = Some perera_metadata\<rparr>"

definition invalid_credentials :: auth_error where
  "invalid_credentials =
     \<lparr>ae_status = Some 400, ae_code = Some ''invalid_credentials'',
      ae_message = Some ''Invalid login credentials''\<rparr>"

definition sample_email :: string where
  "sample_email = ''officer.1764498001234.82mvyr@lankareservoir.secure''"

definition sample_password :: string where
  "sample_password = ''SECURE_1764498001234_k3j9x0q1zab!@#''"

definition sample_gate :: "string \<Rightarrow> ai_outcome" where
  \<open>sample_gate d =
     (if d = ''GOODFACE'' then AiText (Some ''{"authorized": true, "reason": "Clear frontal face"}'')
      else if d = ''OTHERFACE'' then AiText (Some ''{"authorized": true, "reason": "Live person"}'')
      else if d = ''BADFACE'' then AiText (Some ''{"authorized": false, "reason": "No face detected"}'')
      else AiThrows (RemoteError None ''fetch failed''))\<close>

definition sample_env :: env where
  "sample_env =
     \<lparr>JSON_parse = json_parse_ref,
      encodeURIComponent = encode_uri_ref,
      Date_now = 1764498001234,
      random36 = (\<lambda>k. if k = 0 then ''0.4fzyo82mvyr'' else ''0.k3j9x0q1zab''),
      generateContent = sample_gate,
      auth_signUp = (\<lambda>email password name role avatar.
         \<lparr>su_user = Some \<lparr>au_id = ''u1'', au_user_metadata =
              Some \<lparr>meta_name = Some name, meta_role = Some role, meta_avatar_url = Some avatar\<rparr>\<rparr>,
          su_error = None\<rparr>),
      auth_signInWithPassword = (\<lambda>email password.
         if email = JStr sample_email \<and> password = JStr sample_password
         then \<lparr>si_user = Some perera_auth, si_error = None\<rparr>
         else \<lparr>si_user = None, si_error = Some invalid_credentials\<rparr>),
      profiles_single = rows_from 0,
      entries_select = Resolved \<lparr>ds_data = Some [], ds_error = None\<rparr>,
      entries_insert = (\<lambda>payload. Resolved None)\<rparr>"

definition empty_storage :: local_storage where
  "empty_storage = \<lparr>items = [], quota = 5000\<rparr>"

text \<open>A device enrolled in the sample run.\<close>

definition enrolled_storage :: local_storage where
  "enrolled_storage =
     \<lparr>items = [(BIOMETRIC_VAULT_KEY, vaultData sample_email sample_password)], quota = 5000\<rparr>"

definition verify_ui :: auth_ui where
  "verify_ui =
     \<lparr>ui_mode = VERIFY, isLoading = False, ui_error = None, statusMessage = [],
      isScanning = False, scanInterval = True, camera = True, loggedIn = False\<rparr>"

definition sample_entry :: reservoir_entry where
  "sample_entry =
     \<lparr>entry_id = ''1764498001234'', entry_name = ''Kala Wewa'', locationName = ''Kala Wewa'',
      coordinates = \<lparr>latitude = ''8.0167'', longitude = ''80.55''\<rparr>,
      waterLevel = ''12.5'', capacityPercentage = ''80'', entry_status = ''NORMAL'',
      entry_notes = [], entry_timestamp = ''1764498001234'', submittedBy = ''J. Perera'',
      isVerified = True, geminiAnalysis = None, groundingUrl = None\<rparr>"

text \<open>The vision model answers with JSON that is not a verdict.\<close>

definition shapeless_env :: env where
  \<open>shapeless_env = sample_env\<lparr>generateContent := (\<lambda>d. AiText (Some ''{"face": "ok"}''))\<rparr>\<close>

text \<open>The vision model answers with no text, and with text that is not JSON.\<close>

definition silent_env :: env where
  "silent_env = sample_env\<lparr>generateContent := (\<lambda>d. AiText None)\<rparr>"

definition garbled_env :: env where
  "garbled_env = sample_env\<lparr>generateContent := (\<lambda>d. AiText (Some ''I cannot help with that.''))\<rparr>"

text \<open>The auth service is out of reach for sign-in, and refuses sign-up.\<close>

definition network_error :: auth_error where
  "network_error = \<lparr>ae_status = Some 0, ae_code = None, ae_message = Some ''Failed to fetch''\<rparr>"

definition offline_env :: env where
  "offline_env =
     sample_env\<lparr>auth_signInWithPassword := (\<lambda>email password.
       \<lparr>si_user = None, si_error = Some network_error\<rparr>)\<rparr>"

definition trigger_error :: auth_error where
  "trigger_error =
     \<lparr>ae_status = Some 500, ae_code = Some ''unexpected_failure'',
      ae_message = Some ''Database error saving new user''\<rparr>"

definition refusing_env :: env where
  "refusing_env =
     sample_env\<lparr>auth_signUp := (\<lambda>email password name role avatar.
       \<lparr>su_user = None, su_error = Some trigger_error\<rparr>)\<rparr>"

definition scan_start :: scan_state where
  "scan_start = \<lparr>scan_ui = verify_ui, scan_storage = enrolled_storage, pending = []\<rparr>"

text \<open>What the vault of the sample run decodes to.\<close>

definition sample_vault_json :: string where
  \<open>sample_vault_json =
     ''{"email":"officer.1764498001234.82mvyr@lankareservoir.secure","password":"SECURE_1764498001234_k3j9x0q1zab!@#"}''\<close>

text \<open>A cache that does not parse, and a database without the table.\<close>

definition corrupt_storage :: local_storage where
  "corrupt_storage = \<lparr>items = [(LOCAL_STORAGE_KEY, ''{oops'')], quota = 5000\<rparr>"

definition missing_table_env :: env where
  "missing_table_env =
     sample_env\<lparr>entries_select := Resolved \<lparr>ds_data = None,
       ds_error = Some (RemoteError (Some ''PGRST205'') ''Could not find the table'')\<rparr>\<rparr>"

definition unreachable_env :: env where
  "unreachable_env =
     sample_env\<lparr>entries_select := Rejected (RemoteError None ''Failed to fetch''),
                entries_insert := (\<lambda>payload. Rejected (RemoteError None ''Failed to fetch''))\<rparr>"

text \<open>A storage with no room left for an entry.\<close>

definition full_storage :: local_storage where
  "full_storage = \<lparr>items = [], quota = 64\<rparr>"

text \<open>The sample entry as it reads back from the cache: the undefined fields are gone.\<close>

definition sample_entry_cached :: jsval where
  "sample_entry_cached =
     JObj [(''id'', JStr ''1764498001234''), (''name'', JStr ''Kala Wewa''),
           (''locationName'', JStr ''Kala Wewa''),
           (''coordinates'', JObj [(''latitude'', JNum ''8.0167''), (''longitude'', JNum ''80.55'')]),
           (''waterLevel'', JNum ''12.5''), (''capacityPercentage'', JNum ''80''),
           (''status'', JStr ''NORMAL''), (''notes'', JStr []),
           (''timestamp'', JNum ''1764498001234''), (''submittedBy'', JStr ''J. Perera''),
           (''isVerified'', JBool True)]"

section \<open>Properties of getUserProfile\<close>

declare poll_profiles.simps [simp del]

lemma selects_Cons [simp]:
  "selects (EvProfileSelect u # evs) = Suc (selects evs)"
  "selects (EvSleep ms # evs) = selects evs"
  "selects [] = 0"
  "selects (xs @ ys) = selects xs + selects ys"
  by (simp_all add: selects_def)

lemma pauses_append [simp]: "pauses (xs @ ys) = pauses xs @ pauses ys"
  by (induction xs rule: pauses.induct) simp_all

lemma poll_selects_le: "selects (snd (poll_profiles fetch u a)) \<le> maxAttempts - a"
proof (induction fetch u a rule: poll_profiles.induct)
  case (1 fetch userId attempts)
  show ?case
  proof (cases "attempts < maxAttempts")
    case False
    then show ?thesis by (simp add: poll_profiles.simps [of fetch userId attempts])
  next
    case lt: True
    show ?thesis
    proof (cases "row_found (fetch attempts)")
      case True
      with lt show ?thesis by (simp add: poll_profiles.simps [of fetch userId attempts])
    next
      case False
      with lt 1 [OF lt refl False refl refl] show ?thesis
        by (simp add: poll_profiles.simps [of fetch userId attempts] Let_def)
    qed
  qed
qed

lemma poll_pauses: "set (pauses (snd (poll_profiles fetch u a))) \<subseteq> {delayMs}"
proof (induction fetch u a rule: poll_profiles.induct)
  case (1 fetch userId attempts)
  show ?case
  proof (cases "attempts < maxAttempts \<and> \<not> row_found (fetch attempts)")
    case False
    then show ?thesis by (auto simp add: poll_profiles.simps [of fetch userId attempts])
  next
    case True
    with 1 [of "fetch attempts"] show ?thesis
      by (simp add: poll_profiles.simps [of fetch userId attempts] Let_def)
  qed
qed

lemma poll_first:
  "a \<le> k \<Longrightarrow> k < maxAttempts \<Longrightarrow> (\<forall>j. a \<le> j \<and> j < k \<longrightarrow> \<not> row_found (fetch j)) \<Longrightarrow>
   row_found (fetch k) \<Longrightarrow>
   fst (poll_profiles fetch u a) = map_option user_of_row (sel_data (fetch k)) \<and>
   selects (snd (poll_profiles fetch u a)) = k - a + 1 \<and>
   pauses (snd (poll_profiles fetch u a)) = replicate (k - a) delayMs"
proof (induction fetch u a rule: poll_profiles.induct)
  case (1 fetch userId attempts)
  show ?case
  proof (cases "attempts = k")
    case True
    with 1(3,5) show ?thesis by (simp add: poll_profiles.simps [of fetch userId k])
  next
    case False
    with 1(2) have lt: "attempts < k" by simp
    with 1(4) have nf: "\<not> row_found (fetch attempts)" by simp
    from lt 1(3) have lt': "attempts < maxAttempts" "attempts + 1 < maxAttempts" by simp_all
    have "attempts + 1 \<le> k" using lt by simp
    moreover have "\<forall>j. attempts + 1 \<le> j \<and> j < k \<longrightarrow> \<not> row_found (fetch j)" using 1(4) by simp
    ultimately have IH: "fst (poll_profiles fetch userId (attempts + 1)) = map_option user_of_row (sel_data (fetch k)) \<and>
       selects (snd (poll_profiles fetch userId (attempts + 1))) = k - (attempts + 1) + 1 \<and>
       pauses (snd (poll_profiles fetch userId (attempts + 1))) = replicate (k - (attempts + 1)) delayMs"
      using 1(1) [OF lt'(1) refl nf refl refl] 1(3,5) by blast
    from lt have "k - attempts = Suc (k - (attempts + 1))" by simp
    with IH lt' nf show ?thesis
      by (simp add: poll_profiles.simps [of fetch userId attempts] Let_def)
  qed
qed

lemma poll_none:
  "(\<forall>j. a \<le> j \<and> j < maxAttempts \<longrightarrow> \<not> row_found (fetch j)) \<Longrightarrow>
   fst (poll_profiles fetch u a) = None \<and>
   selects (snd (poll_profiles fetch u a)) = maxAttempts - a \<and>
   pauses (snd (poll_profiles fetch u a)) = replicate (maxAttempts - a - 1) delayMs"
proof (induction fetch u a rule: poll_profiles.induct)
  case (1 fetch userId attempts)
  show ?case
  proof (cases "attempts < maxAttempts")
    case False
    then show ?thesis by (simp add: poll_profiles.simps [of fetch userId attempts])
  next
    case lt: True
    with 1(2) have nf: "\<not> row_found (fetch attempts)" by simp
    have IH: "fst (poll_profiles fetch userId (attempts + 1)) = None \<and>
       selects (snd (poll_profiles fetch userId (attempts + 1))) = maxAttempts - (attempts + 1) \<and>
       pauses (snd (poll_profiles fetch userId (attempts + 1))) = replicate (maxAttempts - (attempts + 1) - 1) delayMs"
      using 1(1) [OF lt refl nf refl refl] 1(2) by simp
    show ?thesis
    proof (cases "attempts + 1 < maxAttempts")
      case True
      then have "maxAttempts - attempts - 1 = Suc (maxAttempts - (attempts + 1) - 1)" by simp
      with IH lt nf True show ?thesis
        by (simp add: poll_profiles.simps [of fetch userId attempts] Let_def)
    next
      case False
      with IH lt nf show ?thesis
        by (simp add: poll_profiles.simps [of fetch userId attempts] Let_def)
    qed
  qed
qed

lemma poll_fst_Some:
  "fst (poll_profiles fetch u a) = Some x \<Longrightarrow> \<exists>k. a \<le> k \<and> k < maxAttempts \<and> row_found (fetch k)"
  using poll_none [of a fetch u] by force

lemma poll_first_log:
  "a \<le> k \<Longrightarrow> k < maxAttempts \<Longrightarrow> (\<forall>j. a \<le> j \<and> j < k \<longrightarrow> \<not> row_found (fetch j)) \<Longrightarrow>
   row_found (fetch k) \<Longrightarrow>
   snd (poll_profiles fetch u a) =
     concat (replicate (k - a) [EvProfileSelect u, EvSleep delayMs]) @ [EvProfileSelect u]"
proof (induction fetch u a rule: poll_profiles.induct)
  case (1 fetch userId attempts)
  show ?case
  proof (cases "attempts = k")
    case True
    with 1(3,5) show ?thesis by (simp add: poll_profiles.simps [of fetch userId k])
  next
    case False
    with 1(2) have lt: "attempts < k" by simp
    with 1(4) have nf: "\<not> row_found (fetch attempts)" by simp
    from lt 1(3) have lt': "attempts < maxAttempts" "attempts + 1 < maxAttempts" by simp_all
    have "attempts + 1 \<le> k" using lt by simp
    moreover have "\<forall>j. attempts + 1 \<le> j \<and> j < k \<longrightarrow> \<not> row_found (fetch j)" using 1(4) by simp
    ultimately have IH: "snd (poll_profiles fetch userId (attempts + 1)) =
        concat (replicate (k - (attempts + 1)) [EvProfileSelect userId, EvSleep delayMs])
        @ [EvProfileSelect userId]"
      using 1(1) [OF lt'(1) refl nf refl refl] 1(3,5) by blast
    from lt have "k - attempts = Suc (k - (attempts + 1))" by simp
    with IH lt' nf show ?thesis
      by (simp add: poll_profiles.simps [of fetch userId attempts] Let_def)
  qed
qed

lemma poll_none_log:
  "(\<forall>j. a \<le> j \<and> j < maxAttempts \<longrightarrow> \<not> row_found (fetch j)) \<Longrightarrow> a < maxAttempts \<Longrightarrow>
   snd (poll_profiles fetch u a) =
     concat (replicate (maxAttempts - a - 1) [EvProfileSelect u, EvSleep delayMs]) @ [EvProfileSelect u]"
proof (induction fetch u a rule: poll_profiles.induct)
  case (1 fetch userId attempts)
  from 1(2,3) have nf: "\<not> row_found (fetch attempts)" by simp
  show ?case
  proof (cases "attempts + 1 < maxAttempts")
    case True
    have IH: "snd (poll_profiles fetch userId (attempts + 1)) =
        concat (replicate (maxAttempts - (attempts + 1) - 1) [EvProfileSelect userId, EvSleep delayMs])
        @ [EvProfileSelect userId]"
      using 1(1) [OF 1(3) refl nf refl refl] 1(2) True by simp
    from True have "maxAttempts - attempts - 1 = Suc (maxAttempts - (attempts + 1) - 1)" by simp
    with IH 1(3) nf True show ?thesis
      by (simp add: poll_profiles.simps [of fetch userId attempts] Let_def)
  next
    case False
    with 1(3) have e: "maxAttempts - attempts - 1 = 0" by simp
    from False have "snd (poll_profiles fetch userId (attempts + 1)) = []"
      by (simp add: poll_profiles.simps [of fetch userId "Suc attempts"])
    with 1(3) nf False e show ?thesis
      by (simp add: poll_profiles.simps [of fetch userId attempts] Let_def)
  qed
qed

lemma rows_from_found [simp]: "row_found (rows_from k u n) = (k \<le> n)"
  by (simp add: rows_from_def row_found_def no_row_def)

lemma never_rows_found [simp]: "\<not> row_found (never_rows u n)"
  by (simp add: never_rows_def row_found_def no_row_def)

lemma getUserProfile_log:
  "snd (getUserProfile fetch userId fb) = snd (poll_profiles (fetch userId) userId 0)"
  by (simp add: getUserProfile_def split: prod.splits option.splits)

lemma getUserProfile_found:
  assumes "k < 5" and "\<forall>j<k. sel_error (fetch userId j) \<noteq> None \<or> sel_data (fetch userId j) = None"
    and "sel_error (fetch userId k) = None" and "sel_data (fetch userId k) = Some row"
  shows "getUserProfile fetch userId fb =
     (\<lparr>appUser = Some \<lparr>user_id = row_id row, user_name = row_name row,
                        user_role = row_role row, user_avatarUrl = row_avatar_url row\<rparr>,
       pr_error = None\<rparr>,
      concat (replicate k [EvProfileSelect userId, EvSleep 500]) @ [EvProfileSelect userId])"
proof -
  let ?p = "poll_profiles (fetch userId) userId 0"
  from assms(2) have nf: "\<forall>j. 0 \<le> j \<and> j < k \<longrightarrow> \<not> row_found (fetch userId j)"
    by (auto simp add: row_found_def)
  from assms(3,4) have f: "row_found (fetch userId k)" by (simp add: row_found_def)
  from assms(1) have k: "k < maxAttempts" by (simp add: maxAttempts_def)
  have a: "fst ?p = Some (user_of_row row)"
    using poll_first [of 0 k "fetch userId" userId, OF _ k nf f] assms(4) by simp
  have b: "snd ?p = concat (replicate k [EvProfileSelect userId, EvSleep 500]) @ [EvProfileSelect userId]"
    using poll_first_log [of 0 k "fetch userId" userId, OF _ k nf f] by (simp add: delayMs_def)
  from a b have "?p = (Some (user_of_row row),
      concat (replicate k [EvProfileSelect userId, EvSleep 500]) @ [EvProfileSelect userId])"
    by (metis prod.collapse)
  then show ?thesis
    by (simp add: getUserProfile_def user_of_row_def)
qed

lemma getUserProfile_not_found:
  assumes "\<forall>j<5. sel_error (fetch userId j) \<noteq> None \<or> sel_data (fetch userId j) = None"
  shows "poll_profiles (fetch userId) userId 0 =
     (None, concat (replicate 4 [EvProfileSelect userId, EvSleep 500]) @ [EvProfileSelect userId])"
proof -
  let ?p = "poll_profiles (fetch userId) userId 0"
  from assms have nf: "\<forall>j. 0 \<le> j \<and> j < maxAttempts \<longrightarrow> \<not> row_found (fetch userId j)"
    by (auto simp add: row_found_def maxAttempts_def)
  have a: "fst ?p = None" using poll_none [OF nf, of userId] by simp
  have b: "snd ?p = concat (replicate 4 [EvProfileSelect userId, EvSleep 500]) @ [EvProfileSelect userId]"
    using poll_none_log [OF nf, of userId] by (simp add: maxAttempts_def delayMs_def)
  from a b show ?thesis by (metis prod.collapse)
qed

lemma select_sleep_log [simp]:
  "selects (concat (replicate n [EvProfileSelect u, EvSleep ms])) = n"
  "pauses (concat (replicate n [EvProfileSelect u, EvSleep ms])) = replicate n ms"
  by (induction n) simp_all

lemma replicate_4: "replicate 4 x = [x, x, x, x]"
  by (simp add: numeral_eq_Suc)

text \<open>
  Claim C1. For every user id, getUserProfile selects from the profile store at most 5
  times, and every pause between selects is 500 ms. If the \<open>k\<close>-th select (\<open>k < 5\<close>) is
  the first that resolves to a row without an error, the result is the Profile with the
  id, name, role and avatar of that row, after exactly \<open>k + 1\<close> selects with a pause of
  500 ms before each but the first. If none of the 5 selects finds a row, the log is 5
  selects with 4 pauses of 500 ms between them; then with fallback metadata the result
  is the Profile of the given id with the name, role and avatar of the metadata, the
  role being DATA_ENTRY_WORKER when the metadata has no (or an empty) role; without
  fallback metadata the result is the ProfileUnavailable error and no Profile.
\<close>

theorem getUserProfile_resolves:
  "selects (snd (getUserProfile fetch userId fb)) \<le> 5
   \<and> set (pauses (snd (getUserProfile fetch userId fb))) \<subseteq> {500}
   \<and> (k < 5
       \<and> (\<forall>j<k. sel_error (fetch userId j) \<noteq> None \<or> sel_data (fetch userId j) = None)
       \<and> sel_error (fetch userId k) = None \<and> sel_data (fetch userId k) = Some row
      \<longrightarrow>
        getUserProfile fetch userId fb =
          (\<lparr>appUser = Some \<lparr>user_id = row_id row, user_name = row_name row,
                             user_role = row_role row, user_avatarUrl = row_avatar_url row\<rparr>,
            pr_error = None\<rparr>,
           concat (replicate k [EvProfileSelect userId, EvSleep 500]) @ [EvProfileSelect userId])
        \<and> selects (snd (getUserProfile fetch userId fb)) = k + 1
        \<and> pauses (snd (getUserProfile fetch userId fb)) = replicate k 500)
   \<and> ((\<forall>j<5. sel_error (fetch userId j) \<noteq> None \<or> sel_data (fetch userId j) = None)
      \<longrightarrow>
        snd (getUserProfile fetch userId fb) =
          concat (replicate 4 [EvProfileSelect userId, EvSleep 500]) @ [EvProfileSelect userId]
        \<and> selects (snd (getUserProfile fetch userId fb)) = 5
        \<and> pauses (snd (getUserProfile fetch userId fb)) = [500, 500, 500, 500]
        \<and> (\<forall>au meta. fb = Some au \<and> au_user_metadata au = Some meta \<longrightarrow>
              fst (getUserProfile fetch userId fb) =
                \<lparr>appUser = Some
                   \<lparr>user_id = userId,
                    user_name =
                      (case meta_name meta of None \<Rightarrow> ''Unknown User''
                       | Some n \<Rightarrow> if n = [] then ''Unknown User'' else n),
                    user_role =
                      (case meta_role meta of None \<Rightarrow> DATA_ENTRY_WORKER
                       | Some r \<Rightarrow> if r = [] then DATA_ENTRY_WORKER else r),
                    user_avatarUrl =
                      (case meta_avatar_url meta of
                         None \<Rightarrow> ''https://ui-avatars.com/api/?name=User&background=random''
                       | Some a \<Rightarrow>
                           if a = [] then ''https://ui-avatars.com/api/?name=User&background=random''
                           else a)\<rparr>,
                 pr_error = None\<rparr>)
        \<and> (fb = None \<or> (\<exists>au. fb = Some au \<and> au_user_metadata au = None) \<longrightarrow>
              fst (getUserProfile fetch userId fb) =
                \<lparr>appUser = None, pr_error = Some ProfileUnavailable\<rparr>))"
proof -
  let ?g = "getUserProfile fetch userId fb"
  have A: "selects (snd ?g) \<le> 5"
    using poll_selects_le [of "fetch userId" userId 0]
    by (simp add: getUserProfile_log maxAttempts_def)
  have B: "set (pauses (snd ?g)) \<subseteq> {500}"
    using poll_pauses [of "fetch userId" userId 0]
    by (simp add: getUserProfile_log delayMs_def)
  have C: "?g =
          (\<lparr>appUser = Some \<lparr>user_id = row_id row, user_name = row_name row,
                             user_role = row_role row, user_avatarUrl = row_avatar_url row\<rparr>,
            pr_error = None\<rparr>,
           concat (replicate k [EvProfileSelect userId, EvSleep 500]) @ [EvProfileSelect userId])
        \<and> selects (snd ?g) = k + 1
        \<and> pauses (snd ?g) = replicate k 500"
    if "k < 5
       \<and> (\<forall>j<k. sel_error (fetch userId j) \<noteq> None \<or> sel_data (fetch userId j) = None)
       \<and> sel_error (fetch userId k) = None \<and> sel_data (fetch userId k) = Some row"
  proof -
    from that have "?g =
          (\<lparr>appUser = Some \<lparr>user_id = row_id row, user_name = row_name row,
                             user_role = row_role row, user_avatarUrl = row_avatar_url row\<rparr>,
            pr_error = None\<rparr>,
           concat (replicate k [EvProfileSelect userId, EvSleep 500]) @ [EvProfileSelect userId])"
      using getUserProfile_found [of k fetch userId row fb] by blast
    then show ?thesis by simp
  qed
  have D: "snd ?g =
          concat (replicate 4 [EvProfileSelect userId, EvSleep 500]) @ [EvProfileSelect userId]
        \<and> selects (snd ?g) = 5
        \<and> pauses (snd ?g) = [500, 500, 500, 500]
        \<and> (\<forall>au meta. fb = Some au \<and> au_user_metadata au = Some meta \<longrightarrow>
              fst ?g =
                \<lparr>appUser = Some
                   \<lparr>user_id = userId,
                    user_name =
                      (case meta_name meta of None \<Rightarrow> ''Unknown User''
                       | Some n \<Rightarrow> if n = [] then ''Unknown User'' else n),
                    user_role =
                      (case meta_role meta of None \<Rightarrow> DATA_ENTRY_WORKER
                       | Some r \<Rightarrow> if r = [] then DATA_ENTRY_WORKER else r),
                    user_avatarUrl =
                      (case meta_avatar_url meta of
                         None \<Rightarrow> ''https://ui-avatars.com/api/?name=User&background=random''
                       | Some a \<Rightarrow>
                           if a = [] then ''https://ui-avatars.com/api/?name=User&background=random''
                           else a)\<rparr>,
                 pr_error = None\<rparr>)
        \<and> (fb = None \<or> (\<exists>au. fb = Some au \<and> au_user_metadata au = None) \<longrightarrow>
              fst ?g = \<lparr>appUser = None, pr_error = Some ProfileUnavailable\<rparr>)"
    if h: "\<forall>j<5. sel_error (fetch userId j) \<noteq> None \<or> sel_data (fetch userId j) = None"
  proof -
    note p = getUserProfile_not_found [of fetch userId, OF h]
    have l: "snd ?g =
          concat (replicate 4 [EvProfileSelect userId, EvSleep 500]) @ [EvProfileSelect userId]"
      by (simp add: getUserProfile_log p)
    have c: "selects (snd ?g) = 5" "pauses (snd ?g) = [500, 500, 500, 500]"
      unfolding l by (simp_all add: replicate_4)
    have m: "fst ?g =
                \<lparr>appUser = Some
                   \<lparr>user_id = userId,
                    user_name =
                      (case meta_name meta of None \<Rightarrow> ''Unknown User''
                       | Some n \<Rightarrow> if n = [] then ''Unknown User'' else n),
                    user_role =
                      (case meta_role meta of None \<Rightarrow> DATA_ENTRY_WORKER
                       | Some r \<Rightarrow> if r = [] then DATA_ENTRY_WORKER else r),
                    user_avatarUrl =
                      (case meta_avatar_url meta of
                         None \<Rightarrow> ''https://ui-avatars.com/api/?name=User&background=random''
                       | Some a \<Rightarrow>
                           if a = [] then ''https://ui-avatars.com/api/?name=User&background=random''
                           else a)\<rparr>,
                 pr_error = None\<rparr>"
      if "fb = Some au \<and> au_user_metadata au = Some meta" for au meta
      using that
      by (simp add: getUserProfile_def p fallback_metadata_def user_of_metadata_def
          split: option.splits)
    have n: "fst ?g = \<lparr>appUser = None, pr_error = Some ProfileUnavailable\<rparr>"
      if "fb = None \<or> (\<exists>au. fb = Some au \<and> au_user_metadata au = None)"
      using that by (auto simp add: getUserProfile_def p fallback_metadata_def)
    from l c m n show ?thesis by blast
  qed
  from A B C D show ?thesis by blast
qed

theorem getUserProfile_resolves_witness:
  "getUserProfile (rows_from 2) ''u1'' None =
     (\<lparr>appUser = Some \<lparr>user_id = ''u1'', user_name = ''J. Perera'', user_role = ''ADMIN'',
                        user_avatarUrl = ''p.png''\<rparr>,
       pr_error = None\<rparr>,
      [EvProfileSelect ''u1'', EvSleep 500, EvProfileSelect ''u1'', EvSleep 500,
       EvProfileSelect ''u1''])
   \<and> getUserProfile never_rows ''u1'' (Some auth_user_no_role) =
     (\<lparr>appUser = Some \<lparr>user_id = ''u1'', user_name = ''J. Perera'',
                        user_role = ''DATA_ENTRY_WORKER'',
                        user_avatarUrl = ''https://ui-avatars.com/api/?name=User&background=random''\<rparr>,
       pr_error = None\<rparr>,
      [EvProfileSelect ''u1'', EvSleep 500, EvProfileSelect ''u1'', EvSleep 500,
       EvProfileSelect ''u1'', EvSleep 500, EvProfileSelect ''u1'', EvSleep 500,
       EvProfileSelect ''u1''])
   \<and> getUserProfile never_rows ''u1'' None =
     (\<lparr>appUser = None, pr_error = Some ProfileUnavailable\<rparr>,
      [EvProfileSelect ''u1'', EvSleep 500, EvProfileSelect ''u1'', EvSleep 500,
       EvProfileSelect ''u1'', EvSleep 500, EvProfileSelect ''u1'', EvSleep 500,
       EvProfileSelect ''u1''])"
proof -
  have h1: "(2::nat) < 5
      \<and> (\<forall>j<2. sel_error (rows_from 2 ''u1'' j) \<noteq> None \<or> sel_data (rows_from 2 ''u1'' j) = None)
      \<and> sel_error (rows_from 2 ''u1'' 2) = None \<and> sel_data (rows_from 2 ''u1'' 2) = Some row_perera"
    by (simp add: rows_from_def no_row_def)
  have h2: "\<forall>j<5. sel_error (never_rows ''u1'' j) \<noteq> None \<or> sel_data (never_rows ''u1'' j) = None"
    by (simp add: never_rows_def no_row_def)
  have r2: "concat (replicate 2 [EvProfileSelect ''u1'', EvSleep 500]) @ [EvProfileSelect ''u1''] =
      [EvProfileSelect ''u1'', EvSleep 500, EvProfileSelect ''u1'', EvSleep 500, EvProfileSelect ''u1'']"
    by (simp add: numeral_eq_Suc)
  have r4: "concat (replicate 4 [EvProfileSelect ''u1'', EvSleep 500]) @ [EvProfileSelect ''u1''] =
      [EvProfileSelect ''u1'', EvSleep 500, EvProfileSelect ''u1'', EvSleep 500,
       EvProfileSelect ''u1'', EvSleep 500, EvProfileSelect ''u1'', EvSleep 500,
       EvProfileSelect ''u1'']"
    by (simp add: numeral_eq_Suc)
  have a: "getUserProfile (rows_from 2) ''u1'' None =
     (\<lparr>appUser = Some \<lparr>user_id = row_id row_perera, user_name = row_name row_perera,
                        user_role = row_role row_perera, user_avatarUrl = row_avatar_url row_perera\<rparr>,
       pr_error = None\<rparr>,
      concat (replicate 2 [EvProfileSelect ''u1'', EvSleep 500]) @ [EvProfileSelect ''u1''])"
    using getUserProfile_resolves [of "rows_from 2" "''u1''" None 2 row_perera] h1 by blast
  have b: "snd (getUserProfile never_rows ''u1'' (Some auth_user_no_role)) =
        concat (replicate 4 [EvProfileSelect ''u1'', EvSleep 500]) @ [EvProfileSelect ''u1'']
      \<and> (\<forall>au meta. Some auth_user_no_role = Some au \<and> au_user_metadata au = Some meta \<longrightarrow>
            fst (getUserProfile never_rows ''u1'' (Some auth_user_no_role)) =
              \<lparr>appUser = Some
                 \<lparr>user_id = ''u1'',
                  user_name =
                    (case meta_name meta of None \<Rightarrow> ''Unknown User''
                     | Some n \<Rightarrow> if n = [] then ''Unknown User'' else n),
                  user_role =
                    (case meta_role meta of None \<Rightarrow> DATA_ENTRY_WORKER
                     | Some r \<Rightarrow> if r = [] then DATA_ENTRY_WORKER else r),
                  user_avatarUrl =
                    (case meta_avatar_url meta of
                       None \<Rightarrow> ''https://ui-avatars.com/api/?name=User&background=random''
                     | Some a \<Rightarrow>
                         if a = [] then ''https://ui-avatars.com/api/?name=User&background=random''
                         else a)\<rparr>,
               pr_error = None\<rparr>)"
    using getUserProfile_resolves [of never_rows "''u1''" "Some auth_user_no_role" 0] h2 by blast
  have c: "snd (getUserProfile never_rows ''u1'' None) =
        concat (replicate 4 [EvProfileSelect ''u1'', EvSleep 500]) @ [EvProfileSelect ''u1'']
      \<and> fst (getUserProfile never_rows ''u1'' None) =
          \<lparr>appUser = None, pr_error = Some ProfileUnavailable\<rparr>"
    using getUserProfile_resolves [of never_rows "''u1''" None 0] h2 by blast
  from a have a': "getUserProfile (rows_from 2) ''u1'' None =
     (\<lparr>appUser = Some \<lparr>user_id = ''u1'', user_name = ''J. Perera'', user_role = ''ADMIN'',
                        user_avatarUrl = ''p.png''\<rparr>,
       pr_error = None\<rparr>,
      [EvProfileSelect ''u1'', EvSleep 500, EvProfileSelect ''u1'', EvSleep 500,
       EvProfileSelect ''u1''])"
    unfolding r2 by (simp add: row_perera_def ADMIN_def)
  from b have "snd (getUserProfile never_rows ''u1'' (Some auth_user_no_role)) =
      [EvProfileSelect ''u1'', EvSleep 500, EvProfileSelect ''u1'', EvSleep 500,
       EvProfileSelect ''u1'', EvSleep 500, EvProfileSelect ''u1'', EvSleep 500,
       EvProfileSelect ''u1'']"
    and "fst (getUserProfile never_rows ''u1'' (Some auth_user_no_role)) =
     \<lparr>appUser = Some \<lparr>user_id = ''u1'', user_name = ''J. Perera'',
                        user_role = ''DATA_ENTRY_WORKER'',
                        user_avatarUrl = ''https://ui-avatars.com/api/?name=User&background=random''\<rparr>,
       pr_error = None\<rparr>"
    unfolding r4 by (simp_all add: auth_user_no_role_def DATA_ENTRY_WORKER_def)
  then have b': "getUserProfile never_rows ''u1'' (Some auth_user_no_role) =
     (\<lparr>appUser = Some \<lparr>user_id = ''u1'', user_name = ''J. Perera'',
                        user_role = ''DATA_ENTRY_WORKER'',
                        user_avatarUrl = ''https://ui-avatars.com/api/?name=User&background=random''\<rparr>,
       pr_error = None\<rparr>,
      [EvProfileSelect ''u1'', EvSleep 500, EvProfileSelect ''u1'', EvSleep 500,
       EvProfileSelect ''u1'', EvSleep 500, EvProfileSelect ''u1'', EvSleep 500,
       EvProfileSelect ''u1''])"
    by (metis prod.collapse)
  from c have c': "getUserProfile never_rows ''u1'' None =
     (\<lparr>appUser = None, pr_error = Some ProfileUnavailable\<rparr>,
      [EvProfileSelect ''u1'', EvSleep 500, EvProfileSelect ''u1'', EvSleep 500,
       EvProfileSelect ''u1'', EvSleep 500, EvProfileSelect ''u1'', EvSleep 500,
       EvProfileSelect ''u1''])"
    unfolding r4 by (metis prod.collapse)
  from a' b' c' show ?thesis by simp
qed

section \<open>Properties of analyzeFaceForAccess\<close>

lemma analyzeFaceForAccess_events:
  "snd (analyzeFaceForAccess env img) = [EvGenerateContent (cleanBase64 img)]"
  by (simp add: analyzeFaceForAccess_def split: sum.splits)

lemma analyzeFaceForAccess_value:
  "fst (analyzeFaceForAccess env img) =
     Inr (case analyze_try env img of Inl e \<Rightarrow> service_unavailable | Inr v \<Rightarrow> v)"
  by (simp add: analyzeFaceForAccess_def split: sum.splits)

lemma service_unavailable_rejection: "is_rejection service_unavailable"
  by (simp add: is_rejection_def service_unavailable_def)

lemma no_response_verdict_rejection: "is_rejection no_response_verdict"
  by (simp add: is_rejection_def no_response_verdict_def)

lemma parse_no_response_reply: "json_parse_ref no_response_reply = Some no_response_verdict"
  unfolding no_response_reply_def no_response_verdict_def by code_simp

lemma cleanBase64_plain [simp]:
  "cleanBase64 ''GOODFACE'' = ''GOODFACE''"
  "cleanBase64 ''OTHERFACE'' = ''OTHERFACE''"
  "cleanBase64 ''BADFACE'' = ''BADFACE''"
  "cleanBase64 ''NOFACE'' = ''NOFACE''"
  by (simp_all add: cleanBase64_def starts_with_def)

lemma parse_sample_replies:
  \<open>json_parse_ref ''{"authorized": true, "reason": "Clear frontal face"}'' =
     Some (JObj [(''authorized'', JBool True), (''reason'', JStr ''Clear frontal face'')])\<close>
  \<open>json_parse_ref ''{"authorized": true, "reason": "Live person"}'' =
     Some (JObj [(''authorized'', JBool True), (''reason'', JStr ''Live person'')])\<close>
  \<open>json_parse_ref ''{"authorized": false, "reason": "No face detected"}'' =
     Some (JObj [(''authorized'', JBool False), (''reason'', JStr ''No face detected'')])\<close>
  \<open>json_parse_ref ''{"face": "ok"}'' = Some (JObj [(''face'', JStr ''ok'')])\<close>
  \<open>json_parse_ref ''I cannot help with that.'' = None\<close>
  by code_simp+

text \<open>
  Claim C10, as stated, fails: when the vision model answers with JSON that is not a
  verdict, here \<^verbatim>\<open>{"face": "ok"}\<close>, analyzeFaceForAccess returns that value as it is.
\<close>

theorem analyzeFaceForAccess_shapeless_counterexample:
  "fst (analyzeFaceForAccess shapeless_env ''GOODFACE'') = Inr (JObj [(''face'', JStr ''ok'')])
   \<and> \<not> is_verdict (JObj [(''face'', JStr ''ok'')])"
  by (simp add: analyzeFaceForAccess_value analyze_try_def shapeless_env_def sample_env_def
      parse_sample_replies is_verdict_def)

text \<open>
  Claim C10, amended. analyzeFaceForAccess never raises. When the remote call throws, or
  its reply is not empty and does not parse, the result is the "service unavailable"
  value; when the reply is missing or empty, the result is the "no response" value (on a
  platform whose \<^verbatim>\<open>JSON.parse\<close> reads the built-in reply text as that value); both have
  \<open>authorized = false\<close> and a reason that is not empty. Every other reply is returned
  as parsed, whether or not it is a verdict.
\<close>

theorem analyzeFaceForAccess_total:
  "(\<exists>v. fst (analyzeFaceForAccess env img) = Inr v)
   \<and> ((\<exists>e. generateContent env (cleanBase64 img) = AiThrows e)
        \<or> (\<exists>t. t \<noteq> [] \<and> generateContent env (cleanBase64 img) = AiText (Some t)
                \<and> JSON_parse env t = None)
       \<longrightarrow> fst (analyzeFaceForAccess env img) = Inr service_unavailable)
   \<and> ((generateContent env (cleanBase64 img) = AiText None
         \<or> generateContent env (cleanBase64 img) = AiText (Some []))
        \<and> JSON_parse env no_response_reply = Some no_response_verdict
       \<longrightarrow> fst (analyzeFaceForAccess env img) = Inr no_response_verdict)
   \<and> (\<forall>t v. t \<noteq> [] \<and> generateContent env (cleanBase64 img) = AiText (Some t)
              \<and> JSON_parse env t = Some v
       \<longrightarrow> fst (analyzeFaceForAccess env img) = Inr v)
   \<and> is_rejection service_unavailable
   \<and> is_rejection no_response_verdict"
  by (auto simp add: analyzeFaceForAccess_value analyze_try_def
      service_unavailable_rejection no_response_verdict_rejection)

theorem analyzeFaceForAccess_total_witness:
  "fst (analyzeFaceForAccess sample_env ''NOFACE'') = Inr service_unavailable
   \<and> fst (analyzeFaceForAccess garbled_env ''GOODFACE'') = Inr service_unavailable
   \<and> fst (analyzeFaceForAccess silent_env ''GOODFACE'') = Inr no_response_verdict
   \<and> fst (analyzeFaceForAccess sample_env ''BADFACE'') =
       Inr (JObj [(''authorized'', JBool False), (''reason'', JStr ''No face detected'')])"
proof -
  have throws: "\<exists>e. generateContent sample_env (cleanBase64 ''NOFACE'') = AiThrows e"
    by (simp add: sample_env_def sample_gate_def)
  have garbled: "\<exists>t. t \<noteq> [] \<and> generateContent garbled_env (cleanBase64 ''GOODFACE'') = AiText (Some t)
      \<and> JSON_parse garbled_env t = None"
    by (simp add: garbled_env_def sample_env_def parse_sample_replies)
  have silent: "(generateContent silent_env (cleanBase64 ''GOODFACE'') = AiText None
       \<or> generateContent silent_env (cleanBase64 ''GOODFACE'') = AiText (Some []))
      \<and> JSON_parse silent_env no_response_reply = Some no_response_verdict"
    by (simp add: silent_env_def sample_env_def parse_no_response_reply)
  have bad: \<open>''{"authorized": false, "reason": "No face detected"}'' \<noteq> []
      \<and> generateContent sample_env (cleanBase64 ''BADFACE'') =
          AiText (Some ''{"authorized": false, "reason": "No face detected"}'')
      \<and> JSON_parse sample_env ''{"authorized": false, "reason": "No face detected"}'' =
          Some (JObj [(''authorized'', JBool False), (''reason'', JStr ''No face detected'')])\<close>
    by (simp add: sample_env_def sample_gate_def parse_sample_replies)
  from throws have a: "fst (analyzeFaceForAccess sample_env ''NOFACE'') = Inr service_unavailable"
    using analyzeFaceForAccess_total [of sample_env "''NOFACE''"] by blast
  from garbled have b: "fst (analyzeFaceForAccess garbled_env ''GOODFACE'') = Inr service_unavailable"
    using analyzeFaceForAccess_total [of garbled_env "''GOODFACE''"] by blast
  from silent have c: "fst (analyzeFaceForAccess silent_env ''GOODFACE'') = Inr no_response_verdict"
    using analyzeFaceForAccess_total [of silent_env "''GOODFACE''"] by blast
  from bad have d: "fst (analyzeFaceForAccess sample_env ''BADFACE'') =
       Inr (JObj [(''authorized'', JBool False), (''reason'', JStr ''No face detected'')])"
    using analyzeFaceForAccess_total [of sample_env "''BADFACE''"] by blast
  from a b c d show ?thesis by simp
qed

section \<open>Properties of authService and of the verification loop\<close>

lemma gate_calls_simps [simp]:
  "gate_calls [] = 0"
  "gate_calls (EvGenerateContent d # evs) = Suc (gate_calls evs)"
  "gate_calls (EvProfileSelect u # evs) = gate_calls evs"
  "gate_calls (EvSleep ms # evs) = gate_calls evs"
  "gate_calls (EvSignIn e p # evs) = gate_calls evs"
  "gate_calls (EvSignUp e' p' n r # evs) = gate_calls evs"
  "gate_calls (xs @ ys) = gate_calls xs + gate_calls ys"
  by (simp_all add: gate_calls_def)

lemma sign_ins_simps [simp]:
  "sign_ins [] = 0"
  "sign_ins (EvGenerateContent d # evs) = sign_ins evs"
  "sign_ins (EvProfileSelect u # evs) = sign_ins evs"
  "sign_ins (EvSleep ms # evs) = sign_ins evs"
  "sign_ins (EvSignIn e p # evs) = Suc (sign_ins evs)"
  "sign_ins (EvSignUp e' p' n r # evs) = sign_ins evs"
  "sign_ins (xs @ ys) = sign_ins xs + sign_ins ys"
  by (simp_all add: sign_ins_def)

lemma selects_more [simp]:
  "selects (EvGenerateContent d # evs) = selects evs"
  "selects (EvSignIn e p # evs) = selects evs"
  "selects (EvSignUp e' p' n r # evs) = selects evs"
  by (simp_all add: selects_def)

lemma signup_credentials_append [simp]:
  "signup_credentials (xs @ ys) = signup_credentials xs @ signup_credentials ys"
  by (induction xs rule: signup_credentials.induct) simp_all

lemma poll_no_gate: "gate_calls (snd (poll_profiles fetch u a)) = 0"
proof (induction fetch u a rule: poll_profiles.induct)
  case (1 fetch userId attempts)
  show ?case
  proof (cases "attempts < maxAttempts \<and> \<not> row_found (fetch attempts)")
    case False
    then show ?thesis by (auto simp add: poll_profiles.simps [of fetch userId attempts])
  next
    case True
    with 1 [of "fetch attempts"] show ?thesis
      by (simp add: poll_profiles.simps [of fetch userId attempts] Let_def)
  qed
qed

lemma poll_no_signup: "signup_credentials (snd (poll_profiles fetch u a)) = []"
proof (induction fetch u a rule: poll_profiles.induct)
  case (1 fetch userId attempts)
  show ?case
  proof (cases "attempts < maxAttempts \<and> \<not> row_found (fetch attempts)")
    case False
    then show ?thesis by (auto simp add: poll_profiles.simps [of fetch userId attempts])
  next
    case True
    with 1 [of "fetch attempts"] show ?thesis
      by (simp add: poll_profiles.simps [of fetch userId attempts] Let_def)
  qed
qed

lemma getUserProfile_snd: "snd (getUserProfile fetch userId fb) = snd (poll_profiles (fetch userId) userId 0)"
  by (simp add: getUserProfile_def split: prod.splits option.splits)

lemma getUserProfile_no_gate: "gate_calls (snd (getUserProfile fetch userId fb)) = 0"
  by (simp add: getUserProfile_snd poll_no_gate)

lemma getUserProfile_no_signup: "signup_credentials (snd (getUserProfile fetch userId fb)) = []"
  by (simp add: getUserProfile_snd poll_no_signup)

lemma signIn_events:
  "snd (signIn env e p) = [EvSignIn e p] \<or>
   (\<exists>u. snd (signIn env e p) = EvSignIn e p # snd (getUserProfile (profiles_single env) (au_id u) (Some u)))"
  by (auto simp add: signIn_def Let_def split_beta split: option.splits)

lemma signIn_no_gate: "gate_calls (snd (signIn env e p)) = 0"
  using signIn_events [of env e p] by (auto simp add: getUserProfile_no_gate)

lemma signIn_no_signup: "signup_credentials (snd (signIn env e p)) = []"
  using signIn_events [of env e p] by (auto simp add: getUserProfile_no_signup)

lemma unlock_events:
  "snd (unlock_and_sign_in env vault) = [] \<or>
   (\<exists>e p. snd (unlock_and_sign_in env vault) = snd (signIn env e p))"
  by (auto simp add: unlock_and_sign_in_def Let_def split_beta split: option.splits sum.splits)

lemma unlock_no_gate: "gate_calls (snd (unlock_and_sign_in env vault)) = 0"
  using unlock_events [of env vault] by (auto simp add: signIn_no_gate)

lemma analyze_obtain:
  obtains a where "analyzeFaceForAccess env img = (Inr a, [EvGenerateContent (cleanBase64 img)])"
  by (cases "analyze_try env img") (simp_all add: analyzeFaceForAccess_def)

lemma faceLogin_events:
  "snd (faceLogin env st img) = [] \<or>
   snd (faceLogin env st img) = [EvGenerateContent (cleanBase64 img)] \<or>
   (\<exists>vault. snd (faceLogin env st img) =
      EvGenerateContent (cleanBase64 img) # snd (unlock_and_sign_in env vault))"
proof -
  obtain a where A: "analyzeFaceForAccess env img = (Inr a, [EvGenerateContent (cleanBase64 img)])"
    by (rule analyze_obtain)
  show ?thesis
    by (auto simp add: faceLogin_def A split_beta split: option.splits sum.splits)
qed

lemma faceLogin_gate_calls: "gate_calls (snd (faceLogin env st img)) \<le> 1"
  using faceLogin_events [of env st img] by (auto simp add: unlock_no_gate)

lemma btoa_empty_iff [simp]: "btoa s = [] \<longleftrightarrow> s = []"
  by (cases s rule: btoa.cases) (simp_all add: Let_def)

lemma JSON_stringify_object_nonempty [simp]: "JSON_stringify (JObj kvs) \<noteq> []"
  by simp

lemma vaultData_nonempty [simp]: "vaultData email password \<noteq> []"
  by (simp add: vaultData_def del: JSON_stringify.simps)

lemma js_get_Inr_any: "js_get a k = Inr x \<Longrightarrow> \<exists>y. js_get a k' = Inr y"
  by (cases a) simp_all

lemma gate_rejectsD:
  assumes "gate_rejects env img"
  obtains a reason where
    "analyzeFaceForAccess env img = (Inr a, [EvGenerateContent (cleanBase64 img)])"
    "js_get a ''authorized'' = Inr (JBool False)"
    "js_get a ''reason'' = Inr reason"
proof -
  obtain a where A: "analyzeFaceForAccess env img = (Inr a, [EvGenerateContent (cleanBase64 img)])"
    by (rule analyze_obtain)
  with assms have g: "js_get a ''authorized'' = Inr (JBool False)"
    by (simp add: gate_rejects_def)
  then obtain reason where "js_get a ''reason'' = Inr reason"
    using js_get_Inr_any by blast
  with A g that show ?thesis by blast
qed

lemma gate_acceptsD:
  assumes "gate_accepts env img"
  obtains a x where
    "analyzeFaceForAccess env img = (Inr a, [EvGenerateContent (cleanBase64 img)])"
    "js_get a ''authorized'' = Inr x" "truthy x"
proof -
  obtain a where A: "analyzeFaceForAccess env img = (Inr a, [EvGenerateContent (cleanBase64 img)])"
    by (rule analyze_obtain)
  with assms obtain x where "js_get a ''authorized'' = Inr x" "truthy x"
    by (auto simp add: gate_accepts_def split: sum.splits)
  with A that show ?thesis by blast
qed

lemma faceLogin_rejected:
  assumes "gate_rejects env img"
  shows "faceLogin env st img = (Inl DeviceNotEnrolled, []) \<and> \<not> present (getItem st BIOMETRIC_VAULT_KEY)
     \<or> (\<exists>reason. faceLogin env st img = (Inl (AccessDenied reason), [EvGenerateContent (cleanBase64 img)]))
        \<and> present (getItem st BIOMETRIC_VAULT_KEY)"
proof -
  from assms obtain a reason where
    A: "analyzeFaceForAccess env img = (Inr a, [EvGenerateContent (cleanBase64 img)])"
    and g: "js_get a ''authorized'' = Inr (JBool False)"
    and r: "js_get a ''reason'' = Inr reason"
    by (rule gate_rejectsD)
  show ?thesis
    by (simp add: faceLogin_def A g r present_def split: option.splits)
qed

lemma handleAutoVerify_rejected_face:
  "gate_rejects env img \<and> ui_mode u = VERIFY \<and> \<not> loggedIn u \<longrightarrow>
     (\<exists>u'. fst (handleAutoVerify env st u img) = Inr u'
            \<and> ui_mode u' = VERIFY \<and> \<not> loggedIn u'
            \<and> statusMessage u' = ''Adjust face position...''
            \<and> ui_error u' = None \<and> \<not> isLoading u' \<and> \<not> isScanning u'
            \<and> scanInterval u' = scanInterval u
            \<and> status_line u' = ''Scanning...'')
     \<and> sign_ins (snd (handleAutoVerify env st u img)) = 0
     \<and> selects (snd (handleAutoVerify env st u img)) = 0
     \<and> (\<exists>e. fst (faceLogin env st img) = Inl e)"
proof
  assume h: "gate_rejects env img \<and> ui_mode u = VERIFY \<and> \<not> loggedIn u"
  then have "gate_rejects env img" by simp
  from faceLogin_rejected [OF this, of st] obtain e evs where
    f: "faceLogin env st img = (Inl e, evs)" and evs: "evs = [] \<or> evs = [EvGenerateContent (cleanBase64 img)]"
    by blast
  from evs have c: "sign_ins evs = 0" "selects evs = 0" by auto
  from h f c show "(\<exists>u'. fst (handleAutoVerify env st u img) = Inr u'
            \<and> ui_mode u' = VERIFY \<and> \<not> loggedIn u'
            \<and> statusMessage u' = ''Adjust face position...''
            \<and> ui_error u' = None \<and> \<not> isLoading u' \<and> \<not> isScanning u'
            \<and> scanInterval u' = scanInterval u
            \<and> status_line u' = ''Scanning...'')
     \<and> sign_ins (snd (handleAutoVerify env st u img)) = 0
     \<and> selects (snd (handleAutoVerify env st u img)) = 0
     \<and> (\<exists>e. fst (faceLogin env st img) = Inl e)"
    by (simp add: handleAutoVerify_def handleAutoVerify_settle_def handleAutoVerify_begin_def
        status_line_def)
qed

lemma sample_bad_rejects: "gate_rejects sample_env ''BADFACE''"
  by (simp add: gate_rejects_def analyzeFaceForAccess_value analyze_try_def sample_env_def
      sample_gate_def parse_sample_replies)

lemma sample_bad_faceLogin:
  "faceLogin sample_env enrolled_storage ''BADFACE'' =
     (Inl (AccessDenied (JStr ''No face detected'')), [EvGenerateContent ''BADFACE''])"
proof -
  have v: "getItem enrolled_storage BIOMETRIC_VAULT_KEY = Some (vaultData sample_email sample_password)"
    by (simp add: enrolled_storage_def getItem_def)
  have n: "vaultData sample_email sample_password \<noteq> []"
    by (rule vaultData_nonempty)
  have a: "analyzeFaceForAccess sample_env ''BADFACE'' =
     (Inr (JObj [(''authorized'', JBool False), (''reason'', JStr ''No face detected'')]),
      [EvGenerateContent ''BADFACE''])"
    by (simp add: analyzeFaceForAccess_def analyze_try_def sample_env_def sample_gate_def
        parse_sample_replies)
  show ?thesis
    by (simp add: faceLogin_def v n a)
qed

text \<open>
  Claim C6 fails on the code in one part. When the Biometric Gate returns
  \<open>authorized = false\<close>, the verification attempt does return normally, without a
  sign-in, with the mode still VERIFY and no session; but the soft retry hint does not
  reach the user. handleAutoVerify stores "Adjust face position..." in the status
  message and, with it, ends the loading state, and the component shows the status
  message only while loading: what the user is shown is the fixed text "Scanning...",
  as before and during the attempt.
\<close>

theorem handleAutoVerify_rejected_face_shows_scanning:
  "gate_rejects sample_env ''BADFACE''
   \<and> handleAutoVerify sample_env enrolled_storage verify_ui ''BADFACE'' =
       (Inr (verify_ui\<lparr>statusMessage := ''Adjust face position...''\<rparr>),
        [EvGenerateContent ''BADFACE''])
   \<and> status_line verify_ui = ''Scanning...''
   \<and> status_line (handleAutoVerify_begin verify_ui) = ''Scanning...''
   \<and> status_line (verify_ui\<lparr>statusMessage := ''Adjust face position...''\<rparr>) = ''Scanning...''"
  by (simp add: sample_bad_rejects handleAutoVerify_def sample_bad_faceLogin
      handleAutoVerify_settle_def handleAutoVerify_begin_def status_line_def verify_ui_def)

lemma signUp_events: "snd (signUp env email password name role) = [EvSignUp email password name role]"
  by (simp add: signUp_def Let_def split: option.splits)

lemma signUp_fails:
  "su_error (auth_signUp env email password name role (avatar_url_for env name)) \<noteq> None
   \<or> su_user (auth_signUp env email password name role (avatar_url_for env name)) = None \<Longrightarrow>
   fst (signUp env email password name role) =
     Inl (registration_error (auth_signUp env email password name role (avatar_url_for env name)))"
  by (auto simp add: signUp_def Let_def registration_error_def split: option.splits)

lemma register_fails:
  assumes "credentials env = (email, password)"
    and "su_error (auth_signUp env email password name role (avatar_url_for env name)) \<noteq> None
       \<or> su_user (auth_signUp env email password name role (avatar_url_for env name)) = None"
  shows "register_and_login env st name role =
     (Inl (registration_error (auth_signUp env email password name role (avatar_url_for env name))),
      st, [EvSignUp email password name role])"
proof -
  have "signUp env email password name role =
     (Inl (registration_error (auth_signUp env email password name role (avatar_url_for env name))),
      [EvSignUp email password name role])"
    using signUp_fails [OF assms(2)] signUp_events [of env email password name role]
    by (metis prod.collapse)
  then show ?thesis
    by (simp add: register_and_login_def assms(1))
qed

lemma sample_credentials: "credentials sample_env = (sample_email, sample_password)"
  by code_simp

lemma sample_good_accepts: "gate_accepts sample_env ''GOODFACE''"
  by (simp add: gate_accepts_def analyzeFaceForAccess_value analyze_try_def sample_env_def
      sample_gate_def parse_sample_replies)

lemma sample_other_accepts: "gate_accepts sample_env ''OTHERFACE''"
  by (simp add: gate_accepts_def analyzeFaceForAccess_value analyze_try_def sample_env_def
      sample_gate_def parse_sample_replies)

lemma refusing_env_fields:
  "Date_now refusing_env = Date_now sample_env"
  "random36 refusing_env = random36 sample_env"
  by (simp_all add: refusing_env_def)

lemma refusing_credentials: "credentials refusing_env = (sample_email, sample_password)"
  using sample_credentials by (simp add: credentials_def refusing_env_fields)

lemma refusing_good_accepts: "gate_accepts refusing_env ''GOODFACE''"
  by (simp add: gate_accepts_def analyzeFaceForAccess_value analyze_try_def refusing_env_def
      sample_env_def sample_gate_def parse_sample_replies)

text \<open>
  Claim C7. If the Biometric Gate rejects the image, enrollDevice fails with
  "Face Enrollment Failed: reason", the reason being the gate's; if the gate accepts it
  and the auth service's sign-up returns an error or no user, enrollDevice fails with the
  error signUp makes of that. In both cases the local storage is the one before the
  call, so no credential pair is written and isDeviceEnrolled is as before; in the first
  case the auth service is not called at all.
\<close>

theorem enrollDevice_failure_leaves_vault:
  "(gate_rejects env img \<longrightarrow>
      (\<exists>reason. enrollDevice env st name role img =
         (Inl (FaceEnrollmentFailed reason), st, [EvGenerateContent (cleanBase64 img)]))
      \<and> isDeviceEnrolled (fst (snd (enrollDevice env st name role img))) = isDeviceEnrolled st)
   \<and> (gate_accepts env img \<and> credentials env = (email, password)
       \<and> (su_error (auth_signUp env email password name role (avatar_url_for env name)) \<noteq> None
          \<or> su_user (auth_signUp env email password name role (avatar_url_for env name)) = None)
      \<longrightarrow>
      enrollDevice env st name role img =
        (Inl (registration_error (auth_signUp env email password name role (avatar_url_for env name))),
         st,
         [EvGenerateContent (cleanBase64 img), EvSignUp email password name role])
      \<and> isDeviceEnrolled (fst (snd (enrollDevice env st name role img))) = isDeviceEnrolled st)"
proof (intro conjI impI)
  assume "gate_rejects env img"
  then obtain a reason where
    A: "analyzeFaceForAccess env img = (Inr a, [EvGenerateContent (cleanBase64 img)])"
    and g: "js_get a ''authorized'' = Inr (JBool False)"
    and r: "js_get a ''reason'' = Inr reason"
    by (rule gate_rejectsD)
  then have e: "enrollDevice env st name role img =
         (Inl (FaceEnrollmentFailed reason), st, [EvGenerateContent (cleanBase64 img)])"
    by (simp add: enrollDevice_def)
  then show "\<exists>reason. enrollDevice env st name role img =
         (Inl (FaceEnrollmentFailed reason), st, [EvGenerateContent (cleanBase64 img)])"
    by blast
  from e show "isDeviceEnrolled (fst (snd (enrollDevice env st name role img))) = isDeviceEnrolled st"
    by simp
next
  assume h: "gate_accepts env img \<and> credentials env = (email, password)
       \<and> (su_error (auth_signUp env email password name role (avatar_url_for env name)) \<noteq> None
          \<or> su_user (auth_signUp env email password name role (avatar_url_for env name)) = None)"
  then obtain a x where
    A: "analyzeFaceForAccess env img = (Inr a, [EvGenerateContent (cleanBase64 img)])"
    and g: "js_get a ''authorized'' = Inr x" and t: "truthy x"
    using gate_acceptsD by blast
  from h have "register_and_login env st name role =
     (Inl (registration_error (auth_signUp env email password name role (avatar_url_for env name))),
      st, [EvSignUp email password name role])"
    using register_fails by blast
  with A g t have e: "enrollDevice env st name role img =
        (Inl (registration_error (auth_signUp env email password name role (avatar_url_for env name))),
         st,
         [EvGenerateContent (cleanBase64 img), EvSignUp email password name role])"
    by (simp add: enrollDevice_def)
  then show "enrollDevice env st name role img =
        (Inl (registration_error (auth_signUp env email password name role (avatar_url_for env name))),
         st,
         [EvGenerateContent (cleanBase64 img), EvSignUp email password name role])" .
  from e show "isDeviceEnrolled (fst (snd (enrollDevice env st name role img))) = isDeviceEnrolled st"
    by simp
qed

theorem enrollDevice_failure_leaves_vault_witness:
  "gate_rejects sample_env ''BADFACE''
   \<and> enrollDevice sample_env empty_storage ''J. Perera'' ADMIN ''BADFACE'' =
       (Inl (FaceEnrollmentFailed (JStr ''No face detected'')), empty_storage,
        [EvGenerateContent ''BADFACE''])
   \<and> gate_accepts refusing_env ''GOODFACE''
   \<and> enrollDevice refusing_env empty_storage ''J. Perera'' ADMIN ''GOODFACE'' =
       (Inl DatabaseConfigError, empty_storage,
        [EvGenerateContent ''GOODFACE'', EvSignUp sample_email sample_password ''J. Perera'' ADMIN])
   \<and> \<not> isDeviceEnrolled empty_storage"
proof -
  note t1 = enrollDevice_failure_leaves_vault
    [of sample_env "''BADFACE''" empty_storage "''J. Perera''" ADMIN sample_email sample_password]
  note t2 = enrollDevice_failure_leaves_vault
    [of refusing_env "''GOODFACE''" empty_storage "''J. Perera''" ADMIN sample_email sample_password]
  from t1 sample_bad_rejects obtain reason where
    r: "enrollDevice sample_env empty_storage ''J. Perera'' ADMIN ''BADFACE'' =
         (Inl (FaceEnrollmentFailed reason), empty_storage, [EvGenerateContent (cleanBase64 ''BADFACE'')])"
    by blast
  have "fst (enrollDevice sample_env empty_storage ''J. Perera'' ADMIN ''BADFACE'') =
      Inl (FaceEnrollmentFailed (JStr ''No face detected''))"
    by (simp add: enrollDevice_def split_beta analyzeFaceForAccess_value analyze_try_def
        sample_env_def sample_gate_def parse_sample_replies)
  with r have a: "enrollDevice sample_env empty_storage ''J. Perera'' ADMIN ''BADFACE'' =
       (Inl (FaceEnrollmentFailed (JStr ''No face detected'')), empty_storage,
        [EvGenerateContent ''BADFACE''])"
    by simp
  have fails: "su_error (auth_signUp refusing_env sample_email sample_password ''J. Perera'' ADMIN
        (avatar_url_for refusing_env ''J. Perera'')) \<noteq> None"
    by (simp add: refusing_env_def)
  have err: "registration_error (auth_signUp refusing_env sample_email sample_password ''J. Perera'' ADMIN
        (avatar_url_for refusing_env ''J. Perera'')) = DatabaseConfigError"
    by (simp add: refusing_env_def registration_error_def trigger_error_def)
  from t2 refusing_good_accepts refusing_credentials fails
  have "enrollDevice refusing_env empty_storage ''J. Perera'' ADMIN ''GOODFACE'' =
        (Inl (registration_error (auth_signUp refusing_env sample_email sample_password ''J. Perera'' ADMIN
           (avatar_url_for refusing_env ''J. Perera''))),
         empty_storage,
         [EvGenerateContent (cleanBase64 ''GOODFACE''), EvSignUp sample_email sample_password ''J. Perera'' ADMIN])"
    by blast
  with err have b: "enrollDevice refusing_env empty_storage ''J. Perera'' ADMIN ''GOODFACE'' =
       (Inl DatabaseConfigError, empty_storage,
        [EvGenerateContent ''GOODFACE'', EvSignUp sample_email sample_password ''J. Perera'' ADMIN])"
    by simp
  have c: "\<not> isDeviceEnrolled empty_storage"
    by (simp add: isDeviceEnrolled_def empty_storage_def getItem_def present_def)
  from a b c sample_bad_rejects refusing_good_accepts show ?thesis by simp
qed

lemma register_signup_credentials:
  "signup_credentials (snd (snd (register_and_login env st name role))) = [credentials env]"
proof -
  obtain email password where c: "credentials env = (email, password)"
    by (cases "credentials env")
  obtain reg where s: "signUp env email password name role = (reg, [EvSignUp email password name role])"
    using signUp_events [of env email password name role] by (metis prod.collapse)
  show ?thesis
    by (simp add: register_and_login_def c s split_beta signIn_no_signup
        split: sum.splits option.splits)
qed

lemma enrollDevice_signup_credentials:
  assumes "gate_accepts env img"
  shows "signup_credentials (snd (snd (enrollDevice env st name role img))) = [credentials env]"
proof -
  from assms obtain a x where
    A: "analyzeFaceForAccess env img = (Inr a, [EvGenerateContent (cleanBase64 img)])"
    and g: "js_get a ''authorized'' = Inr x" and t: "truthy x"
    by (rule gate_acceptsD)
  show ?thesis
    by (simp add: enrollDevice_def A g t split_beta register_signup_credentials)
qed

lemma credentials_cong:
  "Date_now env1 = Date_now env2 \<Longrightarrow> random36 env1 0 = random36 env2 0 \<Longrightarrow>
   random36 env1 (Suc 0) = random36 env2 (Suc 0) \<Longrightarrow> credentials env1 = credentials env2"
  by (simp add: credentials_def)

text \<open>
  Claim C9. Take two enrollment runs whose images the gate accepts, with the same
  \<^verbatim>\<open>Date.now()\<close> and the same two random draws, and any names, roles, images, storages
  and remote behaviours. The credential pair each run hands to the auth service is the
  one \<open>credentials\<close> computes from the clock and the draws, and the two pairs are equal.
\<close>

theorem credentials_independent_of_name_and_face:
  "gate_accepts env1 img1 \<and> gate_accepts env2 img2
   \<and> Date_now env1 = Date_now env2
   \<and> random36 env1 0 = random36 env2 0 \<and> random36 env1 1 = random36 env2 1
   \<longrightarrow>
   signup_credentials (snd (snd (enrollDevice env1 st1 name1 role1 img1))) =
     signup_credentials (snd (snd (enrollDevice env2 st2 name2 role2 img2)))
   \<and> signup_credentials (snd (snd (enrollDevice env1 st1 name1 role1 img1))) = [credentials env1]
   \<and> credentials env1 = credentials env2"
  using enrollDevice_signup_credentials [of env1 img1 st1 name1 role1]
    enrollDevice_signup_credentials [of env2 img2 st2 name2 role2]
    credentials_cong [of env1 env2]
  by simp

theorem credentials_independent_of_name_and_face_witness:
  "gate_accepts sample_env ''GOODFACE'' \<and> gate_accepts sample_env ''OTHERFACE''
   \<and> signup_credentials (snd (snd (enrollDevice sample_env empty_storage ''J. Perera'' ADMIN ''GOODFACE''))) =
       [(sample_email, sample_password)]
   \<and> signup_credentials (snd (snd (enrollDevice sample_env empty_storage ''A. Silva'' DATA_ENTRY_WORKER ''OTHERFACE''))) =
       [(sample_email, sample_password)]"
proof -
  have h: "gate_accepts sample_env ''GOODFACE'' \<and> gate_accepts sample_env ''OTHERFACE''
     \<and> Date_now sample_env = Date_now sample_env
     \<and> random36 sample_env 0 = random36 sample_env 0 \<and> random36 sample_env 1 = random36 sample_env 1"
    by (simp add: sample_good_accepts sample_other_accepts)
  from credentials_independent_of_name_and_face
    [of sample_env "''GOODFACE''" sample_env "''OTHERFACE''" empty_storage "''J. Perera''" ADMIN
        empty_storage "''A. Silva''" DATA_ENTRY_WORKER] h
  have "signup_credentials (snd (snd (enrollDevice sample_env empty_storage ''J. Perera'' ADMIN ''GOODFACE''))) =
     signup_credentials (snd (snd (enrollDevice sample_env empty_storage ''A. Silva'' DATA_ENTRY_WORKER ''OTHERFACE'')))
   \<and> signup_credentials (snd (snd (enrollDevice sample_env empty_storage ''J. Perera'' ADMIN ''GOODFACE''))) =
       [credentials sample_env]"
    by blast
  with h show ?thesis by (auto simp add: sample_credentials)
qed

lemma sample_vault_decodes:
  "atob (vaultData sample_email sample_password) = Some sample_vault_json"
  by code_simp

lemma sample_vault_parses:
  "json_parse_ref sample_vault_json =
     Some (JObj [(''email'', JStr sample_email), (''password'', JStr sample_password)])"
  by code_simp

lemma enrolled_storage_vault:
  "getItem enrolled_storage BIOMETRIC_VAULT_KEY = Some (vaultData sample_email sample_password)"
  by (simp add: enrolled_storage_def getItem_def)

lemma offline_env_fields:
  "generateContent offline_env = sample_gate"
  "JSON_parse offline_env = json_parse_ref"
  by (simp_all add: offline_env_def sample_env_def)

lemma offline_good:
  "analyzeFaceForAccess offline_env ''GOODFACE'' =
     (Inr (JObj [(''authorized'', JBool True), (''reason'', JStr ''Clear frontal face'')]),
      [EvGenerateContent ''GOODFACE''])"
  by (simp add: analyzeFaceForAccess_def analyze_try_def offline_env_fields sample_gate_def
      parse_sample_replies)

lemma offline_signIn:
  "signIn offline_env (JStr sample_email) (JStr sample_password) =
     (\<lparr>appUser = None, pr_error = Some (SignInError ''Failed to fetch'')\<rparr>,
      [EvSignIn (JStr sample_email) (JStr sample_password)])"
  by (simp add: signIn_def offline_env_def network_error_def)

text \<open>
  Claim C2 fails on the code. The device holds a vault that decodes, the gate accepts the
  face, and the auth service cannot be reached: the sign-in error thrown inside the
  \<^verbatim>\<open>try\<close> is caught by the \<^verbatim>\<open>catch\<close> meant for the decoding, and faceLogin fails with
  "Biometric Token Corrupted. Please Re-Enroll.".
\<close>

theorem faceLogin_reports_sign_in_failure_as_corruption:
  "atob (vaultData sample_email sample_password) = Some sample_vault_json
   \<and> JSON_parse offline_env sample_vault_json =
       Some (JObj [(''email'', JStr sample_email), (''password'', JStr sample_password)])
   \<and> fst (signIn offline_env (JStr sample_email) (JStr sample_password)) =
       \<lparr>appUser = None, pr_error = Some (SignInError ''Failed to fetch'')\<rparr>
   \<and> faceLogin offline_env enrolled_storage ''GOODFACE'' =
       (Inl TokenCorrupted,
        [EvGenerateContent ''GOODFACE'', EvSignIn (JStr sample_email) (JStr sample_password)])"
proof -
  have u: "unlock_and_sign_in offline_env (vaultData sample_email sample_password) =
      (Inl (SignInError ''Failed to fetch''), [EvSignIn (JStr sample_email) (JStr sample_password)])"
    by (simp add: unlock_and_sign_in_def sample_vault_decodes offline_env_fields
        sample_vault_parses offline_signIn)
  have "faceLogin offline_env enrolled_storage ''GOODFACE'' =
       (Inl TokenCorrupted,
        [EvGenerateContent ''GOODFACE'', EvSignIn (JStr sample_email) (JStr sample_password)])"
    by (simp add: faceLogin_def enrolled_storage_vault offline_good u)
  then show ?thesis
    by (simp add: sample_vault_decodes offline_env_fields sample_vault_parses offline_signIn)
qed

lemma scan_step_inv: "scan_inv s \<Longrightarrow> scan_inv (scan_step env s e)"
proof (cases e)
  case StartLoop
  assume "scan_inv s"
  with StartLoop show ?thesis
    by (simp add: scan_inv_def startScanningLoop_def)
next
  case (Tick m captured)
  assume inv: "scan_inv s"
  show ?thesis
  proof (cases "scanInterval (scan_ui s) \<and> \<not> isScanning (scan_ui s) \<and> m = VERIFY")
    case False
    with inv Tick show ?thesis by auto
  next
    case True
    with inv have empty: "pending s = []" by (simp add: scan_inv_def)
    show ?thesis
    proof (cases captured)
      case None
      with inv Tick True show ?thesis by simp
    next
      case (Some img)
      with Tick True empty show ?thesis
        using faceLogin_gate_calls [of env "scan_storage s" img]
        by (simp add: scan_inv_def handleAutoVerify_begin_def split_beta)
    qed
  qed
next
  case Settle
  assume "scan_inv s"
  with Settle show ?thesis
    by (cases "pending s") (auto simp add: scan_inv_def)
next
  case Reset
  assume "scan_inv s"
  with Reset show ?thesis
    by (simp add: scan_inv_def handleReset_def)
qed

lemma scan_run_inv: "scan_inv s \<Longrightarrow> scan_inv (scan_run env s es)"
  by (induction es arbitrary: s) (simp_all add: scan_step_inv)

lemma scan_inv_gate_calls: "scan_inv s \<Longrightarrow> gate_calls_in_flight s \<le> 1"
  by (cases "pending s"; cases "tl (pending s)")
    (auto simp add: scan_inv_def gate_calls_in_flight_def)

lemma scan_inv_tick_skipped: "scan_inv s \<Longrightarrow> pending s \<noteq> [] \<Longrightarrow> scan_step env s (Tick m captured) = s"
  by (simp add: scan_inv_def)

text \<open>
  Claim C8. From a state with no attempt in flight, after any sequence of loop starts,
  interval ticks, settlements and resets, at most one verification attempt is in flight,
  and so at most one Biometric Gate call; and a tick that fires while an attempt is
  outstanding changes nothing, whatever the camera captured, whatever mode the tick's
  closure holds and however many ticks came before.
\<close>

theorem verify_loop_one_attempt_in_flight:
  "pending s0 = [] \<longrightarrow>
     length (pending (scan_run env s0 es)) \<le> 1
     \<and> gate_calls_in_flight (scan_run env s0 es) \<le> 1
     \<and> (pending (scan_run env s0 es) \<noteq> [] \<longrightarrow>
          scan_step env (scan_run env s0 es) (Tick m captured) = scan_run env s0 es)"
proof
  assume "pending s0 = []"
  then have "scan_inv s0" by (simp add: scan_inv_def)
  then have inv: "scan_inv (scan_run env s0 es)" by (rule scan_run_inv)
  then show "length (pending (scan_run env s0 es)) \<le> 1
     \<and> gate_calls_in_flight (scan_run env s0 es) \<le> 1
     \<and> (pending (scan_run env s0 es) \<noteq> [] \<longrightarrow>
          scan_step env (scan_run env s0 es) (Tick m captured) = scan_run env s0 es)"
    using scan_inv_gate_calls [OF inv] scan_inv_tick_skipped [OF inv]
    by (simp add: scan_inv_def)
qed

lemma scan_after_first_tick:
  "pending (scan_run sample_env scan_start [StartLoop, Tick VERIFY (Some ''BADFACE'')]) =
     [faceLogin sample_env enrolled_storage ''BADFACE'']"
  by (simp add: scan_start_def verify_ui_def startScanningLoop_def)

theorem verify_loop_one_attempt_in_flight_witness:
  "pending scan_start = []
   \<and> pending (scan_run sample_env scan_start [StartLoop, Tick VERIFY (Some ''BADFACE'')]) \<noteq> []
   \<and> length (pending (scan_run sample_env scan_start [StartLoop, Tick VERIFY (Some ''BADFACE'')])) \<le> 1
   \<and> gate_calls_in_flight (scan_run sample_env scan_start [StartLoop, Tick VERIFY (Some ''BADFACE'')]) \<le> 1
   \<and> scan_run sample_env scan_start [StartLoop, Tick VERIFY (Some ''BADFACE''), Tick VERIFY (Some ''GOODFACE'')] =
       scan_run sample_env scan_start [StartLoop, Tick VERIFY (Some ''BADFACE'')]"
proof -
  have h: "pending scan_start = []" by (simp add: scan_start_def)
  have ne: "pending (scan_run sample_env scan_start [StartLoop, Tick VERIFY (Some ''BADFACE'')]) \<noteq> []"
    unfolding scan_after_first_tick by simp
  from verify_loop_one_attempt_in_flight
    [of scan_start sample_env "[StartLoop, Tick VERIFY (Some ''BADFACE'')]" VERIFY "Some ''GOODFACE''"] h ne
  have "length (pending (scan_run sample_env scan_start [StartLoop, Tick VERIFY (Some ''BADFACE'')])) \<le> 1
     \<and> gate_calls_in_flight (scan_run sample_env scan_start [StartLoop, Tick VERIFY (Some ''BADFACE'')]) \<le> 1
     \<and> scan_step sample_env (scan_run sample_env scan_start [StartLoop, Tick VERIFY (Some ''BADFACE'')])
          (Tick VERIFY (Some ''GOODFACE'')) = scan_run sample_env scan_start [StartLoop, Tick VERIFY (Some ''BADFACE'')]"
    by blast
  with h ne show ?thesis by simp
qed

section \<open>Properties of the vault and of dataService\<close>

lemma getItem_setItem:
  "setItem st key v = Inr st' \<Longrightarrow> getItem st' k = (if k = key then Some v else getItem st k)"
  by (auto simp add: setItem_def getItem_def Let_def update_conv' split: if_splits)

lemma getItem_removeItem:
  "getItem (removeItem st key) k = (if k = key then None else getItem st k)"
  by (simp add: removeItem_def getItem_def delete_conv')

lemma keys_differ [simp]: "LOCAL_STORAGE_KEY \<noteq> BIOMETRIC_VAULT_KEY" "BIOMETRIC_VAULT_KEY \<noteq> LOCAL_STORAGE_KEY"
  by (simp_all add: LOCAL_STORAGE_KEY_def BIOMETRIC_VAULT_KEY_def)

lemma store_vault_enrolled: "store_vault st email password = Inr st' \<Longrightarrow> isDeviceEnrolled st'"
  by (simp add: store_vault_def isDeviceEnrolled_def getItem_setItem present_def)

lemma reset_not_enrolled: "\<not> isDeviceEnrolled (resetEnrollment st)"
  by (simp add: resetEnrollment_def isDeviceEnrolled_def getItem_removeItem present_def)

lemma addEntry_never_raises: "fst (addEntry env st entry) = Inr ()"
  by (simp add: addEntry_def Let_def)

lemma addEntry_storage:
  "fst (snd (addEntry env st entry)) =
     (case mirror_entry env st entry of Inl e \<Rightarrow> st | Inr st1 \<Rightarrow> st1)"
  by (simp add: addEntry_def Let_def)

lemma mirror_entry_vault:
  "mirror_entry env st entry = Inr st' \<Longrightarrow> getItem st' BIOMETRIC_VAULT_KEY = getItem st BIOMETRIC_VAULT_KEY"
  by (auto simp add: mirror_entry_def getItem_setItem split: sum.splits)

lemma addEntry_vault:
  "getItem (fst (snd (addEntry env st entry))) BIOMETRIC_VAULT_KEY = getItem st BIOMETRIC_VAULT_KEY"
  by (simp add: addEntry_storage mirror_entry_vault split: sum.splits)

lemma delete_local_vault:
  "delete_local env st entryId = Inr st' \<Longrightarrow> getItem st' BIOMETRIC_VAULT_KEY = getItem st BIOMETRIC_VAULT_KEY"
  by (auto simp add: delete_local_def getItem_setItem split: option.splits if_splits jsval.splits sum.splits)

lemma deleteEntry_vault:
  "getItem (fst (snd (deleteEntry env st entryId))) BIOMETRIC_VAULT_KEY = getItem st BIOMETRIC_VAULT_KEY"
  by (simp add: deleteEntry_def delete_local_vault split: sum.splits)

lemma device_step_inv:
  assumes "isDeviceEnrolled st = stored_more_recently_than_cleared history"
    and "device_step env st x = (st', completed)"
  shows "isDeviceEnrolled st' =
     stored_more_recently_than_cleared (if completed then x # history else history)"
proof (cases x)
  case (VaultStore email password)
  with assms show ?thesis
    by (auto simp add: store_vault_enrolled split: sum.splits)
next
  case VaultClear
  with assms show ?thesis
    by (auto simp add: reset_not_enrolled)
next
  case (AddEntry entry)
  with assms show ?thesis
    by (auto simp add: isDeviceEnrolled_def addEntry_vault)
next
  case (DeleteEntry entryId)
  with assms show ?thesis
    by (auto simp add: isDeviceEnrolled_def deleteEntry_vault)
qed

lemma device_run_inv:
  "isDeviceEnrolled st = stored_more_recently_than_cleared history \<Longrightarrow>
   isDeviceEnrolled (fst (device_run env (st, history) xs)) =
     stored_more_recently_than_cleared (snd (device_run env (st, history) xs))"
proof (induction xs arbitrary: st history)
  case Nil
  then show ?case by simp
next
  case (Cons x xs)
  obtain st' completed where s: "device_step env st x = (st', completed)"
    by (cases "device_step env st x")
  from device_step_inv [OF Cons.prems s]
  have "isDeviceEnrolled (fst (device_run env (st', if completed then x # history else history) xs)) =
     stored_more_recently_than_cleared (snd (device_run env (st', if completed then x # history else history) xs))"
    by (rule Cons.IH)
  with s show ?case by simp
qed

text \<open>
  Claim C3. On a device whose storage holds no vault at first, after any sequence of
  vault writes (step 4 of enrollDevice), resets (resetEnrollment) and cache writes
  (addEntry, deleteEntry), isDeviceEnrolled is true if and only if, among the operations that
  completed, a vault write is more recent than every reset. In particular it is false
  at first, false after a reset from any state, and true after a vault write that
  completed from any state.
\<close>

theorem isDeviceEnrolled_iff_stored_more_recently:
  "(getItem st0 BIOMETRIC_VAULT_KEY = None \<longrightarrow>
      \<not> isDeviceEnrolled st0
      \<and> isDeviceEnrolled (fst (device_run env (st0, []) xs)) =
          stored_more_recently_than_cleared (snd (device_run env (st0, []) xs)))
   \<and> \<not> isDeviceEnrolled (resetEnrollment st)
   \<and> (store_vault st email password = Inr st' \<longrightarrow> isDeviceEnrolled st')"
proof (intro conjI impI)
  assume h: "getItem st0 BIOMETRIC_VAULT_KEY = None"
  then show n: "\<not> isDeviceEnrolled st0"
    by (simp add: isDeviceEnrolled_def present_def)
  then have "isDeviceEnrolled st0 = stored_more_recently_than_cleared []" by simp
  then show "isDeviceEnrolled (fst (device_run env (st0, []) xs)) =
          stored_more_recently_than_cleared (snd (device_run env (st0, []) xs))"
    by (rule device_run_inv)
next
  show "\<not> isDeviceEnrolled (resetEnrollment st)" by (rule reset_not_enrolled)
next
  assume "store_vault st email password = Inr st'"
  then show "isDeviceEnrolled st'" by (rule store_vault_enrolled)
qed

lemma store_sample_vault: "store_vault empty_storage sample_email sample_password = Inr enrolled_storage"
  by code_simp

theorem isDeviceEnrolled_iff_stored_more_recently_witness:
  "getItem empty_storage BIOMETRIC_VAULT_KEY = None
   \<and> \<not> isDeviceEnrolled empty_storage
   \<and> store_vault empty_storage sample_email sample_password = Inr enrolled_storage
   \<and> isDeviceEnrolled enrolled_storage
   \<and> device_run sample_env (empty_storage, []) [VaultStore sample_email sample_password, VaultClear] =
       (empty_storage, [VaultClear, VaultStore sample_email sample_password])
   \<and> \<not> isDeviceEnrolled (fst (device_run sample_env (empty_storage, [])
          [VaultStore sample_email sample_password, VaultClear]))
   \<and> isDeviceEnrolled (fst (device_run sample_env (empty_storage, [])
          [VaultStore sample_email sample_password, VaultClear,
           VaultStore sample_email sample_password, AddEntry sample_entry]))"
proof -
  note t = isDeviceEnrolled_iff_stored_more_recently
    [of empty_storage sample_env _ empty_storage sample_email sample_password enrolled_storage]
  have h: "getItem empty_storage BIOMETRIC_VAULT_KEY = None"
    by (simp add: empty_storage_def getItem_def)
  have r: "resetEnrollment enrolled_storage = empty_storage"
    by (simp add: resetEnrollment_def removeItem_def enrolled_storage_def empty_storage_def)
  have run2: "device_run sample_env (empty_storage, []) [VaultStore sample_email sample_password, VaultClear] =
       (empty_storage, [VaultClear, VaultStore sample_email sample_password])"
    by (simp add: store_sample_vault r)
  have hist4: "snd (device_run sample_env (empty_storage, [])
          [VaultStore sample_email sample_password, VaultClear,
           VaultStore sample_email sample_password, AddEntry sample_entry]) =
       [AddEntry sample_entry, VaultStore sample_email sample_password, VaultClear,
        VaultStore sample_email sample_password]"
    by (simp add: store_sample_vault r)
  from t [of "[VaultStore sample_email sample_password, VaultClear]"] h
  have a: "\<not> isDeviceEnrolled empty_storage"
    and b: "isDeviceEnrolled (fst (device_run sample_env (empty_storage, [])
        [VaultStore sample_email sample_password, VaultClear])) =
      stored_more_recently_than_cleared (snd (device_run sample_env (empty_storage, [])
        [VaultStore sample_email sample_password, VaultClear]))"
    by blast+
  from t [of "[VaultStore sample_email sample_password, VaultClear,
           VaultStore sample_email sample_password, AddEntry sample_entry]"] h
  have c: "isDeviceEnrolled (fst (device_run sample_env (empty_storage, [])
        [VaultStore sample_email sample_password, VaultClear,
           VaultStore sample_email sample_password, AddEntry sample_entry])) =
      stored_more_recently_than_cleared (snd (device_run sample_env (empty_storage, [])
        [VaultStore sample_email sample_password, VaultClear,
           VaultStore sample_email sample_password, AddEntry sample_entry]))"
    by blast
  from t [of "[]"] store_sample_vault have d: "isDeviceEnrolled enrolled_storage"
    by blast
  from b have b': "\<not> isDeviceEnrolled (fst (device_run sample_env (empty_storage, [])
          [VaultStore sample_email sample_password, VaultClear]))"
    unfolding run2 by simp
  from c have c': "isDeviceEnrolled (fst (device_run sample_env (empty_storage, [])
          [VaultStore sample_email sample_password, VaultClear,
           VaultStore sample_email sample_password, AddEntry sample_entry]))"
    unfolding hist4 by simp
  from h a store_sample_vault d run2 b' c' show ?thesis by blast
qed

lemma mirror_entry_success:
  assumes "cached_entries env st = Some old"
    and "setItem st LOCAL_STORAGE_KEY (JSON_stringify (JArr (entry_value entry # old))) = Inr st'"
  shows "mirror_entry env st entry = Inr st'"
  using assms by (auto simp add: mirror_entry_def cached_entries_def split: sum.splits)

lemma mirror_entry_unreadable:
  "cached_entries env st = None \<Longrightarrow> \<exists>e. mirror_entry env st entry = Inl e"
  by (auto simp add: mirror_entry_def cached_entries_def split: sum.splits)

lemma mirror_entry_refused:
  assumes "cached_entries env st = Some old"
    and "setItem st LOCAL_STORAGE_KEY (JSON_stringify (JArr (entry_value entry # old))) = Inl e"
  shows "mirror_entry env st entry = Inl e"
  using assms by (auto simp add: mirror_entry_def cached_entries_def split: sum.splits)

lemma saved_entries_insert_irrelevant:
  "saved_entries (env\<lparr>entries_insert := f\<rparr>) st = saved_entries env st"
  by (simp add: saved_entries_def split: option.splits)

lemma mirror_entry_insert_irrelevant:
  "mirror_entry (env\<lparr>entries_insert := f\<rparr>) st entry = mirror_entry env st entry"
  by (simp add: mirror_entry_def saved_entries_insert_irrelevant)

text \<open>
  Claim C4, amended. addEntry never raises, and what it leaves in the local storage does
  not depend on the outcome of the remote insert. When the cached text is absent or
  parses to an array (or another iterable) and the storage accepts the write, the cache
  afterwards is the serialisation of the record followed by the entries cached before.
  When the cached text cannot be read that way, or the storage refuses the write, the
  storage is left as it was.
\<close>

theorem addEntry_mirrors_when_cache_usable:
  "fst (addEntry env st entry) = Inr ()
   \<and> fst (snd (addEntry (env\<lparr>entries_insert := f\<rparr>) st entry)) = fst (snd (addEntry env st entry))
   \<and> (cached_entries env st = Some old
       \<and> setItem st LOCAL_STORAGE_KEY (JSON_stringify (JArr (entry_value entry # old))) = Inr st'
      \<longrightarrow> fst (snd (addEntry env st entry)) = st'
          \<and> getItem (fst (snd (addEntry env st entry))) LOCAL_STORAGE_KEY =
              Some (JSON_stringify (JArr (entry_value entry # old))))
   \<and> (cached_entries env st = None
       \<or> (cached_entries env st = Some old
           \<and> setItem st LOCAL_STORAGE_KEY (JSON_stringify (JArr (entry_value entry # old))) = Inl e)
      \<longrightarrow> fst (snd (addEntry env st entry)) = st)"
proof (intro conjI impI)
  show "fst (addEntry env st entry) = Inr ()" by (rule addEntry_never_raises)
  show "fst (snd (addEntry (env\<lparr>entries_insert := f\<rparr>) st entry)) = fst (snd (addEntry env st entry))"
    by (simp add: addEntry_storage mirror_entry_insert_irrelevant)
next
  assume h: "cached_entries env st = Some old
       \<and> setItem st LOCAL_STORAGE_KEY (JSON_stringify (JArr (entry_value entry # old))) = Inr st'"
  then have "mirror_entry env st entry = Inr st'" by (simp add: mirror_entry_success)
  then show s: "fst (snd (addEntry env st entry)) = st'" by (simp add: addEntry_storage)
  from h show "getItem (fst (snd (addEntry env st entry))) LOCAL_STORAGE_KEY =
              Some (JSON_stringify (JArr (entry_value entry # old)))"
    unfolding s
    using getItem_setItem [of st LOCAL_STORAGE_KEY "JSON_stringify (JArr (entry_value entry # old))" st'
        LOCAL_STORAGE_KEY]
    by (simp del: JSON_stringify.simps)
next
  assume "cached_entries env st = None
       \<or> (cached_entries env st = Some old
           \<and> setItem st LOCAL_STORAGE_KEY (JSON_stringify (JArr (entry_value entry # old))) = Inl e)"
  then have "\<exists>e. mirror_entry env st entry = Inl e"
    using mirror_entry_unreadable mirror_entry_refused by blast
  then show "fst (snd (addEntry env st entry)) = st"
    by (auto simp add: addEntry_storage)
qed


lemma corrupt_cache_unreadable: "saved_entries sample_env corrupt_storage = Inl SyntaxError"
proof -
  have "json_parse_ref ''{oops'' = None" by code_simp
  then show ?thesis
    by (simp add: saved_entries_def corrupt_storage_def getItem_def sample_env_def)
qed

lemma empty_cache_entries: "cached_entries env empty_storage = Some []"
  by (simp add: cached_entries_def saved_entries_def empty_storage_def getItem_def)

lemma sample_entry_text:
  \<open>JSON_stringify (JArr [entry_value sample_entry]) =
     ''[{"id":"1764498001234","name":"Kala Wewa","locationName":"Kala Wewa","coordinates":{"latitude":8.0167,"longitude":80.55},"waterLevel":12.5,"capacityPercentage":80,"status":"NORMAL","notes":"","timestamp":1764498001234,"submittedBy":"J. Perera","isVerified":true}]''\<close>
  by code_simp

lemma sample_entry_stored:
  "setItem empty_storage LOCAL_STORAGE_KEY (JSON_stringify (JArr [entry_value sample_entry])) =
     Inr (empty_storage\<lparr>items := [(LOCAL_STORAGE_KEY, JSON_stringify (JArr [entry_value sample_entry]))]\<rparr>)"
  unfolding sample_entry_text by code_simp

lemma sample_entry_refused:
  "setItem full_storage LOCAL_STORAGE_KEY (JSON_stringify (JArr [entry_value sample_entry])) =
     Inl QuotaExceededError"
  unfolding sample_entry_text by code_simp

text \<open>
  Claim C4, as stated, fails. With a cached text that does not parse, the second
  \<^verbatim>\<open>try\<close> of addEntry catches the SyntaxError and the cache is left as it was, without
  the record; with a storage that has no room left, it catches the QuotaExceededError of
  \<^verbatim>\<open>setItem\<close> and the cache stays absent.
\<close>

theorem addEntry_record_not_cached_counterexample:
  "fst (addEntry sample_env corrupt_storage sample_entry) = Inr ()
   \<and> getItem (fst (snd (addEntry sample_env corrupt_storage sample_entry))) LOCAL_STORAGE_KEY =
       Some ''{oops''
   \<and> fst (addEntry sample_env full_storage sample_entry) = Inr ()
   \<and> getItem (fst (snd (addEntry sample_env full_storage sample_entry))) LOCAL_STORAGE_KEY = None"
proof -
  have a: "getItem (fst (snd (addEntry sample_env corrupt_storage sample_entry))) LOCAL_STORAGE_KEY =
       Some ''{oops''"
    by (simp add: addEntry_storage mirror_entry_def corrupt_cache_unreadable)
      (simp add: corrupt_storage_def getItem_def)
  have "saved_entries sample_env full_storage = Inr (JArr [])"
    by (simp add: saved_entries_def full_storage_def getItem_def)
  then have "mirror_entry sample_env full_storage sample_entry = Inl QuotaExceededError"
    by (simp add: mirror_entry_def sample_entry_refused del: JSON_stringify.simps)
  then have b: "getItem (fst (snd (addEntry sample_env full_storage sample_entry))) LOCAL_STORAGE_KEY = None"
    by (simp add: addEntry_storage) (simp add: full_storage_def getItem_def)
  from a b show ?thesis by (simp add: addEntry_never_raises)
qed

theorem addEntry_mirrors_when_cache_usable_witness:
  "cached_entries unreachable_env empty_storage = Some []
   \<and> fst (addEntry unreachable_env empty_storage sample_entry) = Inr ()
   \<and> getItem (fst (snd (addEntry unreachable_env empty_storage sample_entry))) LOCAL_STORAGE_KEY =
       Some (JSON_stringify (JArr [entry_value sample_entry]))
   \<and> cached_entries sample_env corrupt_storage = None
   \<and> fst (snd (addEntry sample_env corrupt_storage sample_entry)) = corrupt_storage"
proof -
  have h1: "cached_entries unreachable_env empty_storage = Some []
     \<and> setItem empty_storage LOCAL_STORAGE_KEY (JSON_stringify (JArr (entry_value sample_entry # []))) =
         Inr (empty_storage\<lparr>items := [(LOCAL_STORAGE_KEY, JSON_stringify (JArr [entry_value sample_entry]))]\<rparr>)"
    using empty_cache_entries sample_entry_stored by blast
  have h2: "cached_entries sample_env corrupt_storage = None"
    by (simp add: cached_entries_def corrupt_cache_unreadable)
  from addEntry_mirrors_when_cache_usable [of unreachable_env empty_storage sample_entry _ "[]"
      "empty_storage\<lparr>items := [(LOCAL_STORAGE_KEY, JSON_stringify (JArr [entry_value sample_entry]))]\<rparr>"] h1
  have a: "fst (addEntry unreachable_env empty_storage sample_entry) = Inr ()"
    and b: "getItem (fst (snd (addEntry unreachable_env empty_storage sample_entry))) LOCAL_STORAGE_KEY =
       Some (JSON_stringify (JArr [entry_value sample_entry]))"
    by blast+
  from addEntry_mirrors_when_cache_usable [of sample_env corrupt_storage sample_entry] h2
  have c: "fst (snd (addEntry sample_env corrupt_storage sample_entry)) = corrupt_storage"
    by blast
  from h1 h2 a b c show ?thesis by blast
qed

lemma select_entries_fails:
  "entries_select env = Rejected e \<or> (\<exists>r. entries_select env = Resolved r \<and> ds_error r = Some e) \<Longrightarrow>
   select_entries env = Inl e"
  by (auto simp add: select_entries_def)

lemma getEntries_local:
  "select_entries env = Inl e \<Longrightarrow> saved_entries env st = Inr d \<Longrightarrow>
   fst (getEntries env st) =
     Inr \<lparr>er_data = d, er_source = LOCAL, er_isMissingTable = (error_code e = Some ''PGRST205'')\<rparr>"
  by (simp add: getEntries_def)

lemma getEntries_remote:
  "select_entries env = Inr rows \<Longrightarrow>
   fst (getEntries env st) = Inr \<lparr>er_data = JArr rows, er_source = MYSQL, er_isMissingTable = False\<rparr>"
  by (simp add: getEntries_def)

lemma getEntries_remote_only:
  "fst (getEntries env st) = Inr res \<Longrightarrow> er_source res = MYSQL \<Longrightarrow>
   \<exists>rows. select_entries env = Inr rows \<and> er_data res = JArr rows"
  by (auto simp add: getEntries_def Let_def split: sum.splits)

lemma mirror_entry_written:
  "mirror_entry env st entry = Inr st' \<Longrightarrow>
   \<exists>old. getItem st' LOCAL_STORAGE_KEY = Some (JSON_stringify (JArr (entry_value entry # old)))"
proof -
  assume m: "mirror_entry env st entry = Inr st'"
  then obtain old where
    "setItem st LOCAL_STORAGE_KEY (JSON_stringify (JArr (entry_value entry # old))) = Inr st'"
    by (auto simp add: mirror_entry_def simp del: JSON_stringify.simps split: sum.splits)
  from getItem_setItem [OF this, of LOCAL_STORAGE_KEY] show ?thesis
    by (auto simp del: JSON_stringify.simps)
qed

lemma delete_local_written:
  "delete_local env st entryId = Inr st' \<Longrightarrow>
   st' = st \<or> (\<exists>xs. getItem st' LOCAL_STORAGE_KEY = Some (JSON_stringify (JArr xs)))"
proof -
  assume d: "delete_local env st entryId = Inr st'"
  then have "st' = st \<or> (\<exists>xs. setItem st LOCAL_STORAGE_KEY (JSON_stringify (JArr xs)) = Inr st')"
    by (auto simp add: delete_local_def simp del: JSON_stringify.simps
        split: option.splits if_splits jsval.splits sum.splits)
  then show ?thesis
    using getItem_setItem [of st LOCAL_STORAGE_KEY _ st' LOCAL_STORAGE_KEY]
    by (auto simp del: JSON_stringify.simps)
qed

lemma store_vault_cache:
  "store_vault st email password = Inr st' \<Longrightarrow> getItem st' LOCAL_STORAGE_KEY = getItem st LOCAL_STORAGE_KEY"
  by (simp add: store_vault_def getItem_setItem)

lemma cache_text_step:
  assumes "getItem st LOCAL_STORAGE_KEY = None
     \<or> (\<exists>xs. getItem st LOCAL_STORAGE_KEY = Some (JSON_stringify (JArr xs)))"
  shows "getItem (fst (device_step env st x)) LOCAL_STORAGE_KEY = None
     \<or> (\<exists>xs. getItem (fst (device_step env st x)) LOCAL_STORAGE_KEY = Some (JSON_stringify (JArr xs)))"
proof (cases x)
  case (VaultStore email password)
  with assms show ?thesis
    by (cases "store_vault st email password") (simp_all add: store_vault_cache del: JSON_stringify.simps)
next
  case VaultClear
  with assms show ?thesis
    by (simp add: resetEnrollment_def getItem_removeItem del: JSON_stringify.simps)
next
  case (AddEntry entry)
  show ?thesis
  proof (cases "mirror_entry env st entry")
    case (Inl e)
    with assms AddEntry show ?thesis by (simp add: addEntry_storage del: JSON_stringify.simps)
  next
    case (Inr st1)
    from mirror_entry_written [OF this] Inr AddEntry show ?thesis
      by (auto simp add: addEntry_storage simp del: JSON_stringify.simps)
  qed
next
  case (DeleteEntry entryId)
  show ?thesis
  proof (cases "delete_local env st entryId")
    case (Inl e)
    with assms DeleteEntry show ?thesis by (simp add: deleteEntry_def del: JSON_stringify.simps)
  next
    case (Inr st1)
    from delete_local_written [OF this] assms Inr DeleteEntry show ?thesis
      by (auto simp add: deleteEntry_def simp del: JSON_stringify.simps)
  qed
qed

lemma cache_text_run:
  "getItem st LOCAL_STORAGE_KEY = None
     \<or> (\<exists>xs. getItem st LOCAL_STORAGE_KEY = Some (JSON_stringify (JArr xs))) \<Longrightarrow>
   getItem (fst (device_run env (st, history) ops)) LOCAL_STORAGE_KEY = None
     \<or> (\<exists>xs. getItem (fst (device_run env (st, history) ops)) LOCAL_STORAGE_KEY =
           Some (JSON_stringify (JArr xs)))"
proof (induction ops arbitrary: st history)
  case Nil
  then show ?case by (simp del: JSON_stringify.simps)
next
  case (Cons x ops)
  from cache_text_step [OF Cons.prems, of env x]
  have "getItem (fst (device_run env (fst (device_step env st x),
            if snd (device_step env st x) then x # history else history) ops)) LOCAL_STORAGE_KEY = None
     \<or> (\<exists>xs. getItem (fst (device_run env (fst (device_step env st x),
            if snd (device_step env st x) then x # history else history) ops)) LOCAL_STORAGE_KEY =
           Some (JSON_stringify (JArr xs)))"
    by (rule Cons.IH)
  then show ?case by (simp add: split_beta del: JSON_stringify.simps)
qed

lemma array_text_nonempty: "JSON_stringify (JArr xs) \<noteq> []"
  by simp

lemma reachable_cache_readable:
  assumes "getItem st0 LOCAL_STORAGE_KEY = None"
    and "st = fst (device_run env (st0, []) ops)"
    and "\<forall>xs. getItem st LOCAL_STORAGE_KEY = Some (JSON_stringify (JArr xs)) \<longrightarrow>
           JSON_parse env (JSON_stringify (JArr xs)) \<noteq> None"
  shows "\<exists>d. saved_entries env st = Inr d
     \<and> (case getItem st LOCAL_STORAGE_KEY of None \<Rightarrow> d = JArr [] | Some t \<Rightarrow> JSON_parse env t = Some d)"
proof -
  from cache_text_run [of st0 env "[]" ops] assms(1,2)
  have "getItem st LOCAL_STORAGE_KEY = None
     \<or> (\<exists>xs. getItem st LOCAL_STORAGE_KEY = Some (JSON_stringify (JArr xs)))"
    by (simp del: JSON_stringify.simps)
  then show ?thesis
  proof
    assume "getItem st LOCAL_STORAGE_KEY = None"
    then show ?thesis by (simp add: saved_entries_def)
  next
    assume "\<exists>xs. getItem st LOCAL_STORAGE_KEY = Some (JSON_stringify (JArr xs))"
    then obtain xs where g: "getItem st LOCAL_STORAGE_KEY = Some (JSON_stringify (JArr xs))"
      by blast
    with assms(3) obtain d where "JSON_parse env (JSON_stringify (JArr xs)) = Some d"
      by blast
    with g array_text_nonempty [of xs] show ?thesis
      by (simp add: saved_entries_def del: JSON_stringify.simps)
  qed
qed

text \<open>
  Claim C5. Take a storage that the program's own storage operations (vault write,
  reset, addEntry, deleteEntry) have produced from one without a cache, on a platform
  whose \<^verbatim>\<open>JSON.parse\<close> reads the array text that \<^verbatim>\<open>JSON.stringify\<close> wrote to the cache.
  When the remote read fails with an error \<open>e\<close> (the select rejects or resolves to an
  error, or mapping a row raises), getEntries returns the local-cache data (the empty
  array when nothing is cached, else what the cached text parses to) with source LOCAL,
  and the missing-table flag is true exactly when \<open>e\<close> is an error of the database
  client with code PGRST205. When the remote read succeeds, on any storage, it returns
  the mapped rows with source MYSQL and the flag false, and a result with source MYSQL
  comes from a successful remote read only.
\<close>

theorem getEntries_classifies_failures:
  "(getItem st0 LOCAL_STORAGE_KEY = None
     \<and> st = fst (device_run env (st0, []) ops)
     \<and> (\<forall>xs. getItem st LOCAL_STORAGE_KEY = Some (JSON_stringify (JArr xs)) \<longrightarrow>
              JSON_parse env (JSON_stringify (JArr xs)) \<noteq> None)
     \<and> select_entries env = Inl e
    \<longrightarrow>
      (\<exists>d. fst (getEntries env st) =
              Inr \<lparr>er_data = d, er_source = LOCAL,
                   er_isMissingTable =
                     (case e of RemoteError code message \<Rightarrow> code = Some ''PGRST205'' | _ \<Rightarrow> False)\<rparr>
            \<and> (case getItem st LOCAL_STORAGE_KEY of
                  None \<Rightarrow> d = JArr []
                | Some t \<Rightarrow> JSON_parse env t = Some d)))
   \<and> (entries_select env = Rejected e \<or> (\<exists>r. entries_select env = Resolved r \<and> ds_error r = Some e)
       \<longrightarrow> select_entries env = Inl e)
   \<and> (select_entries env = Inr rows \<longrightarrow>
        fst (getEntries env st') =
          Inr \<lparr>er_data = JArr rows, er_source = MYSQL, er_isMissingTable = False\<rparr>)
   \<and> (fst (getEntries env st') = Inr res \<and> er_source res = MYSQL \<longrightarrow>
        (\<exists>rows'. select_entries env = Inr rows' \<and> er_data res = JArr rows'))"
proof (intro conjI impI)
  assume h: "getItem st0 LOCAL_STORAGE_KEY = None
     \<and> st = fst (device_run env (st0, []) ops)
     \<and> (\<forall>xs. getItem st LOCAL_STORAGE_KEY = Some (JSON_stringify (JArr xs)) \<longrightarrow>
              JSON_parse env (JSON_stringify (JArr xs)) \<noteq> None)
     \<and> select_entries env = Inl e"
  then obtain d where d: "saved_entries env st = Inr d"
    and r: "case getItem st LOCAL_STORAGE_KEY of None \<Rightarrow> d = JArr [] | Some t \<Rightarrow> JSON_parse env t = Some d"
    using reachable_cache_readable [of st0 st env ops] by blast
  have c: "(error_code e = Some ''PGRST205'') =
      (case e of RemoteError code message \<Rightarrow> code = Some ''PGRST205'' | _ \<Rightarrow> False)"
    by (cases e) simp_all
  from h d have "fst (getEntries env st) =
      Inr \<lparr>er_data = d, er_source = LOCAL, er_isMissingTable = (error_code e = Some ''PGRST205'')\<rparr>"
    by (simp add: getEntries_local)
  with c r show "\<exists>d. fst (getEntries env st) =
              Inr \<lparr>er_data = d, er_source = LOCAL,
                   er_isMissingTable =
                     (case e of RemoteError code message \<Rightarrow> code = Some ''PGRST205'' | _ \<Rightarrow> False)\<rparr>
            \<and> (case getItem st LOCAL_STORAGE_KEY of
                  None \<Rightarrow> d = JArr []
                | Some t \<Rightarrow> JSON_parse env t = Some d)"
    by auto
next
  assume "entries_select env = Rejected e \<or> (\<exists>r. entries_select env = Resolved r \<and> ds_error r = Some e)"
  then show "select_entries env = Inl e" by (rule select_entries_fails)
next
  assume "select_entries env = Inr rows"
  then show "fst (getEntries env st') =
          Inr \<lparr>er_data = JArr rows, er_source = MYSQL, er_isMissingTable = False\<rparr>"
    by (rule getEntries_remote)
next
  assume "fst (getEntries env st') = Inr res \<and> er_source res = MYSQL"
  then show "\<exists>rows'. select_entries env = Inr rows' \<and> er_data res = JArr rows'"
    using getEntries_remote_only by blast
qed

lemma sample_entry_reads_back:
  "json_parse_ref (JSON_stringify (JArr [entry_value sample_entry])) = Some (JArr [sample_entry_cached])"
  unfolding sample_entry_text sample_entry_cached_def by code_simp

lemma sample_entry_added:
  "device_run env (empty_storage, []) [AddEntry sample_entry] =
     (empty_storage\<lparr>items := [(LOCAL_STORAGE_KEY, JSON_stringify (JArr [entry_value sample_entry]))]\<rparr>,
      [AddEntry sample_entry])"
proof -
  have "mirror_entry env empty_storage sample_entry =
      Inr (empty_storage\<lparr>items := [(LOCAL_STORAGE_KEY, JSON_stringify (JArr [entry_value sample_entry]))]\<rparr>)"
    using mirror_entry_success [OF empty_cache_entries sample_entry_stored] .
  then show ?thesis
    by (simp add: addEntry_storage del: JSON_stringify.simps)
qed

theorem getEntries_classifies_failures_witness:
  "getItem empty_storage LOCAL_STORAGE_KEY = None
   \<and> fst (getEntries missing_table_env
           (fst (device_run missing_table_env (empty_storage, []) [AddEntry sample_entry]))) =
       Inr \<lparr>er_data = JArr [sample_entry_cached], er_source = LOCAL, er_isMissingTable = True\<rparr>
   \<and> fst (getEntries unreachable_env
           (fst (device_run unreachable_env (empty_storage, []) [AddEntry sample_entry]))) =
       Inr \<lparr>er_data = JArr [sample_entry_cached], er_source = LOCAL, er_isMissingTable = False\<rparr>
   \<and> fst (getEntries missing_table_env (fst (device_run missing_table_env (empty_storage, []) []))) =
       Inr \<lparr>er_data = JArr [], er_source = LOCAL, er_isMissingTable = True\<rparr>
   \<and> fst (getEntries sample_env empty_storage) =
       Inr \<lparr>er_data = JArr [], er_source = MYSQL, er_isMissingTable = False\<rparr>"
proof -
  let ?T = "JSON_stringify (JArr [entry_value sample_entry])"
  let ?st = "empty_storage\<lparr>items := [(LOCAL_STORAGE_KEY, ?T)]\<rparr>"
  have h0: "getItem empty_storage LOCAL_STORAGE_KEY = None"
    by (simp add: empty_storage_def getItem_def)
  have g: "getItem ?st LOCAL_STORAGE_KEY = Some ?T"
    by (simp add: getItem_def del: JSON_stringify.simps)
  have pm: "JSON_parse missing_table_env = json_parse_ref" "JSON_parse unreachable_env = json_parse_ref"
    by (simp_all add: missing_table_env_def unreachable_env_def sample_env_def)
  have reads: "\<forall>xs. getItem ?st LOCAL_STORAGE_KEY = Some (JSON_stringify (JArr xs)) \<longrightarrow>
      json_parse_ref (JSON_stringify (JArr xs)) \<noteq> None"
  proof (intro allI impI)
    fix xs
    assume "getItem ?st LOCAL_STORAGE_KEY = Some (JSON_stringify (JArr xs))"
    with g have "JSON_stringify (JArr xs) = ?T" by (simp del: JSON_stringify.simps)
    then show "json_parse_ref (JSON_stringify (JArr xs)) \<noteq> None"
      by (simp add: sample_entry_reads_back del: JSON_stringify.simps)
  qed
  have reads0: "\<forall>xs. getItem empty_storage LOCAL_STORAGE_KEY = Some (JSON_stringify (JArr xs)) \<longrightarrow>
      json_parse_ref (JSON_stringify (JArr xs)) \<noteq> None"
    by (simp add: h0 del: JSON_stringify.simps)
  have sm: "select_entries missing_table_env = Inl (RemoteError (Some ''PGRST205'') ''Could not find the table'')"
    by (simp add: select_entries_def missing_table_env_def)
  have su: "select_entries unreachable_env = Inl (RemoteError None ''Failed to fetch'')"
    by (simp add: select_entries_def unreachable_env_def)
  have ok: "select_entries sample_env = Inr []"
    by (simp add: select_entries_def sample_env_def)
  have a: "\<exists>d. fst (getEntries missing_table_env ?st) =
        Inr \<lparr>er_data = d, er_source = LOCAL,
             er_isMissingTable =
               (case RemoteError (Some ''PGRST205'') ''Could not find the table'' of
                  RemoteError code message \<Rightarrow> code = Some ''PGRST205'' | _ \<Rightarrow> False)\<rparr>
      \<and> (case getItem ?st LOCAL_STORAGE_KEY of
            None \<Rightarrow> d = JArr []
          | Some t \<Rightarrow> JSON_parse missing_table_env t = Some d)"
    using getEntries_classifies_failures
      [of empty_storage ?st missing_table_env "[AddEntry sample_entry]"
          "RemoteError (Some ''PGRST205'') ''Could not find the table''"]
      h0 sample_entry_added [of missing_table_env] reads sm
    by (simp add: pm del: JSON_stringify.simps)
  have b: "\<exists>d. fst (getEntries unreachable_env ?st) =
        Inr \<lparr>er_data = d, er_source = LOCAL,
             er_isMissingTable =
               (case RemoteError None ''Failed to fetch'' of
                  RemoteError code message \<Rightarrow> code = Some ''PGRST205'' | _ \<Rightarrow> False)\<rparr>
      \<and> (case getItem ?st LOCAL_STORAGE_KEY of
            None \<Rightarrow> d = JArr []
          | Some t \<Rightarrow> JSON_parse unreachable_env t = Some d)"
    using getEntries_classifies_failures
      [of empty_storage ?st unreachable_env "[AddEntry sample_entry]"
          "RemoteError None ''Failed to fetch''"]
      h0 sample_entry_added [of unreachable_env] reads su
    by (simp add: pm del: JSON_stringify.simps)
  have c: "\<exists>d. fst (getEntries missing_table_env empty_storage) =
        Inr \<lparr>er_data = d, er_source = LOCAL,
             er_isMissingTable =
               (case RemoteError (Some ''PGRST205'') ''Could not find the table'' of
                  RemoteError code message \<Rightarrow> code = Some ''PGRST205'' | _ \<Rightarrow> False)\<rparr>
      \<and> (case getItem empty_storage LOCAL_STORAGE_KEY of
            None \<Rightarrow> d = JArr []
          | Some t \<Rightarrow> JSON_parse missing_table_env t = Some d)"
    using getEntries_classifies_failures
      [of empty_storage empty_storage missing_table_env "[]"
          "RemoteError (Some ''PGRST205'') ''Could not find the table''"]
      h0 reads0 sm
    by (simp add: pm del: JSON_stringify.simps)
  have d: "fst (getEntries sample_env empty_storage) =
       Inr \<lparr>er_data = JArr [], er_source = MYSQL, er_isMissingTable = False\<rparr>"
    using getEntries_classifies_failures [of _ _ sample_env _ _ "[]" empty_storage] ok by blast
  from a g have a': "fst (getEntries missing_table_env ?st) =
       Inr \<lparr>er_data = JArr [sample_entry_cached], er_source = LOCAL, er_isMissingTable = True\<rparr>"
    by (auto simp add: pm sample_entry_reads_back simp del: JSON_stringify.simps)
  from b g have b': "fst (getEntries unreachable_env ?st) =
       Inr \<lparr>er_data = JArr [sample_entry_cached], er_source = LOCAL, er_isMissingTable = False\<rparr>"
    by (auto simp add: pm sample_entry_reads_back simp del: JSON_stringify.simps)
  from c h0 have c': "fst (getEntries missing_table_env empty_storage) =
       Inr \<lparr>er_data = JArr [], er_source = LOCAL, er_isMissingTable = True\<rparr>"
    by auto
  from h0 a' b' c' d show ?thesis
    unfolding sample_entry_added by (simp del: JSON_stringify.simps)
qed

end
